theory Spec2Isabelle
  imports Complex_Main "HOL-Library.AList"
begin

section \<open>Python values shared by the modules\<close>

text \<open>
  Process identifiers are Python ints. Exceptions are values: a function of the source
  that can leave through an exception returns the exception beside (or instead of) its
  result. The value of a float is a real; Python dicts whose iteration order matters are
  association lists with unique keys (\<open>d[k] = v\<close> is \<open>AList.update\<close>: in place for
  a known key, at the end for a new one), Python lists are lists.
\<close>

type_synonym pid = int

datatype py_exception =
    NoSuchProcess
  | AccessDenied
  | ZombieProcess
  | ZeroDivisionError
  | AttributeError string
  | UnboundLocalError string
  | OtherException string

fun exception_str :: "py_exception \<Rightarrow> string" where
  "exception_str NoSuchProcess = ''process no longer exists''"
| "exception_str AccessDenied = ''access denied''"
| "exception_str ZombieProcess = ''zombie process''"
| "exception_str ZeroDivisionError = ''division by zero''"
| "exception_str (AttributeError m) = m"
| "exception_str (UnboundLocalError m) = m"
| "exception_str (OtherException m) = m"

subsection \<open>Strings: \<open>str.lower\<close>, \<open>k in s\<close>, \<open>str(n)\<close>\<close>

definition lower_char :: "char \<Rightarrow> char" where
  "lower_char c =
     (case map_of (zip ''ABCDEFGHIJKLMNOPQRSTUVWXYZ'' ''abcdefghijklmnopqrstuvwxyz'') c of
        Some d \<Rightarrow> d
      | None \<Rightarrow> c)"

definition lower :: "string \<Rightarrow> string" where
  "lower s = map lower_char s"

fun startswith :: "string \<Rightarrow> string \<Rightarrow> bool" where
  "startswith s [] = True"
| "startswith [] (k # ks) = False"
| "startswith (c # cs) (k # ks) = (c = k \<and> startswith cs ks)"

text \<open>\<open>str_in k s\<close> is Python's \<open>k in s\<close> on strings: \<open>k\<close> occurs in \<open>s\<close>.\<close>

fun str_in :: "string \<Rightarrow> string \<Rightarrow> bool" where
  "str_in k [] = (k = [])"
| "str_in k (c # cs) = (startswith (c # cs) k \<or> str_in k cs)"

definition digit_char :: "nat \<Rightarrow> char" where
  "digit_char d = ''0123456789'' ! d"

fun str_of_nat :: "nat \<Rightarrow> string" where
  "str_of_nat n =
     (if n < 10 then [digit_char n] else str_of_nat (n div 10) @ [digit_char (n mod 10)])"

declare str_of_nat.simps [simp del]

text \<open>\<open>int(x)\<close> on a float truncates towards zero.\<close>

definition py_int :: "real \<Rightarrow> int" where
  "py_int x = (if 0 \<le> x then \<lfloor>x\<rfloor> else \<lceil>x\<rceil>)"

text \<open>\<open>a / b\<close> raises on a zero divisor.\<close>

definition py_truediv :: "real \<Rightarrow> real \<Rightarrow> py_exception + real" where
  "py_truediv a b = (if b = 0 then Inl ZeroDivisionError else Inr (a / b))"

text \<open>
  \<open>sorted(xs, key=f, reverse=True)\<close>: Python's sort is stable, also when reversed, so
  entries with equal keys keep their order.
\<close>

definition sorted_reverse :: "('a \<Rightarrow> 'k::{linorder, uminus}) \<Rightarrow> 'a list \<Rightarrow> 'a list" where
  "sorted_reverse f xs = sort_key (\<lambda>x. - f x) xs"

subsection \<open>Numbers: ints and floats\<close>

text \<open>
  A Python number is an int or a float. An operation on floats gives the double nearest
  to the exact result (IEEE 754), an int that meets a float is converted to a float
  first, and \<open>sum\<close> adds exactly as long as it meets ints and in floats from the first
  float on. The two float primitives are taken as parameters, since Python fixes them
  by the platform and the interpreter: \<open>round_nearest\<close>, the rounding of an exact result
  to a double, and \<open>float_sum\<close>, the summation of floats that \<open>sum\<close> uses (one rounded
  addition after the other, or a compensated summation). Only \<open>calculate_boost\<close>, whose
  result is the truncation of a float, uses them; elsewhere the exact result stands for
  the float.
\<close>

datatype py_number = PyInt int | PyFloat real

record float_arithmetic =
  round_nearest :: "real \<Rightarrow> real"
  float_sum :: "real list \<Rightarrow> real"

definition num_value :: "py_number \<Rightarrow> real" where
  "num_value a = (case a of PyInt i \<Rightarrow> of_int i | PyFloat x \<Rightarrow> x)"

definition to_float :: "float_arithmetic \<Rightarrow> py_number \<Rightarrow> real" where
  "to_float fa a = (case a of PyInt i \<Rightarrow> round_nearest fa (of_int i) | PyFloat x \<Rightarrow> x)"

definition is_py_int :: "py_number \<Rightarrow> bool" where
  "is_py_int a = (case a of PyInt i \<Rightarrow> True | PyFloat x \<Rightarrow> False)"

definition num_sub :: "float_arithmetic \<Rightarrow> py_number \<Rightarrow> py_number \<Rightarrow> py_number" where
  "num_sub fa a b =
     (case (a, b) of
        (PyInt i, PyInt j) \<Rightarrow> PyInt (i - j)
      | _ \<Rightarrow> PyFloat (round_nearest fa (to_float fa a - to_float fa b)))"

definition num_mul :: "float_arithmetic \<Rightarrow> py_number \<Rightarrow> py_number \<Rightarrow> py_number" where
  "num_mul fa a b =
     (case (a, b) of
        (PyInt i, PyInt j) \<Rightarrow> PyInt (i * j)
      | _ \<Rightarrow> PyFloat (round_nearest fa (to_float fa a * to_float fa b)))"

text \<open>\<open>a / b\<close> is a float also on ints, and raises on a zero divisor.\<close>

definition float_quotient :: "float_arithmetic \<Rightarrow> py_number \<Rightarrow> py_number \<Rightarrow> py_number" where
  "float_quotient fa a b =
     PyFloat (round_nearest fa
                (case (a, b) of
                   (PyInt i, PyInt j) \<Rightarrow> of_int i / of_int j
                 | _ \<Rightarrow> to_float fa a / to_float fa b))"

definition num_div ::
  "float_arithmetic \<Rightarrow> py_number \<Rightarrow> py_number \<Rightarrow> py_exception + py_number" where
  "num_div fa a b =
     (if num_value b = 0 then Inl ZeroDivisionError else Inr (float_quotient fa a b))"

text \<open>\<open>max(0, x)\<close> keeps its first argument, the int 0, unless \<open>x\<close> is greater.\<close>

definition py_max0 :: "py_number \<Rightarrow> py_number" where
  "py_max0 x = (if num_value x > 0 then x else PyInt 0)"

definition py_sum :: "float_arithmetic \<Rightarrow> py_number list \<Rightarrow> py_number" where
  "py_sum fa xs =
     (let ints = takeWhile is_py_int xs;
          rest = dropWhile is_py_int xs;
          int_total = sum_list (map (\<lambda>a. case a of PyInt i \<Rightarrow> i | PyFloat x \<Rightarrow> 0) ints)
      in if rest = [] then PyInt int_total
         else PyFloat (float_sum fa
                 (round_nearest fa (of_int int_total) # map (to_float fa) rest)))"

text \<open>\<open>int(a)\<close>.\<close>

definition num_to_int :: "py_number \<Rightarrow> int" where
  "num_to_int a = (case a of PyInt i \<Rightarrow> i | PyFloat x \<Rightarrow> py_int x)"

section \<open>The operating system, as \<open>psutil\<close> shows it\<close>

text \<open>
  The fields of a live process that \<open>src/core/optimizer.py\<close> reads and writes through a
  \<open>psutil.Process\<close> handle. The last fields say how the platform answers: which
  exception \<open>process.name()\<close>, the setter \<open>process.nice(v)\<close>, the getter
  \<open>process.nice()\<close> and the setter \<open>process.cpu_affinity(cores)\<close> raise (if any),
  whether reading the metrics raises, and
  whether the platform primitive behind the GPU, memory and I/O actions succeeds for this
  process (no exception, a handle obtained).
\<close>

record os_process =
  proc_name :: string
  proc_nice :: int
  proc_cpu_affinity :: "nat list"
  proc_cpu_percent :: real
  proc_rss :: nat
  proc_num_threads :: nat
  proc_io_counters :: "(string \<times> nat) list"
  name_raises :: "py_exception option"
  nice_raises :: "py_exception option"
  nice_getter_raises :: "py_exception option"
  affinity_raises :: "py_exception option"
  metrics_raise :: bool
  gpu_call_ok :: bool
  memory_call_ok :: bool
  io_call_ok :: bool

datatype platform_system = Windows | Linux | Darwin

record os_state =
  os_procs :: "pid \<Rightarrow> os_process option"
  os_cpu_count :: nat
  os_now :: nat
  os_power_plan :: string
  os_powercfg_ok :: bool

text \<open>The priority classes of the Windows API, as \<open>psutil\<close> exports them.\<close>

definition IDLE_PRIORITY_CLASS :: int where "IDLE_PRIORITY_CLASS = 64"
definition BELOW_NORMAL_PRIORITY_CLASS :: int where "BELOW_NORMAL_PRIORITY_CLASS = 16384"
definition NORMAL_PRIORITY_CLASS :: int where "NORMAL_PRIORITY_CLASS = 32"
definition ABOVE_NORMAL_PRIORITY_CLASS :: int where "ABOVE_NORMAL_PRIORITY_CLASS = 32768"
definition HIGH_PRIORITY_CLASS :: int where "HIGH_PRIORITY_CLASS = 128"
definition REALTIME_PRIORITY_CLASS :: int where "REALTIME_PRIORITY_CLASS = 256"

section \<open>\<open>src/core/optimizer.py\<close>: class \<open>SystemOptimizer\<close>\<close>

record profile =
  display_name :: string
  priority :: string
  cpu_affinity :: string
  gpu_acceleration :: bool
  memory_optimization :: bool
  disk_priority :: "string option"
  disable_fullscreen_optimization :: "bool option"

text \<open>What \<open>_get_process_metrics\<close> returns; the empty dict of its \<open>except\<close> is \<open>None\<close>.\<close>

record metrics =
  cpu_percent :: real
  memory_mb :: real
  num_threads :: nat
  io_counters :: "(string \<times> nat) list"

text \<open>The value stored in \<open>self.optimized_processes[pid]\<close>.\<close>

record optimization_record =
  name :: string
  applied_profile :: profile
  timestamp :: nat
  optimizations :: "string list"
  metrics_before :: "metrics option"
  boost_percentage :: int

record system_optimizer =
  platform :: platform_system
  optimized_processes :: "(pid \<times> optimization_record) list"
  optimization_profiles :: "(string \<times> profile) list"

definition default_profiles :: "(string \<times> profile) list" where
  "default_profiles =
    [(''chrome'', \<lparr>display_name = ''Google Chrome'', priority = ''high'',
        cpu_affinity = ''all'', gpu_acceleration = True, memory_optimization = True,
        disk_priority = Some ''high'', disable_fullscreen_optimization = None\<rparr>),
     (''firefox'', \<lparr>display_name = ''Mozilla Firefox'', priority = ''high'',
        cpu_affinity = ''all'', gpu_acceleration = True, memory_optimization = True,
        disk_priority = Some ''high'', disable_fullscreen_optimization = None\<rparr>),
     (''photoshop'', \<lparr>display_name = ''Adobe Photoshop'', priority = ''realtime'',
        cpu_affinity = ''all'', gpu_acceleration = True, memory_optimization = False,
        disk_priority = Some ''high'', disable_fullscreen_optimization = None\<rparr>),
     (''game'', \<lparr>display_name = ''Generic Game'', priority = ''realtime'',
        cpu_affinity = ''performance_cores'', gpu_acceleration = True,
        memory_optimization = False, disk_priority = Some ''high'',
        disable_fullscreen_optimization = Some True\<rparr>)]"

text \<open>
  \<open>_load_profiles\<close>: the defaults, updated with the custom profiles of the configuration
  file (no entry when the file is absent or unreadable).
\<close>

definition load_profiles :: "(string \<times> profile) list \<Rightarrow> (string \<times> profile) list" where
  "load_profiles custom_profiles =
     fold (\<lambda>(k, v). AList.update k v) custom_profiles default_profiles"

definition SystemOptimizer_init ::
  "platform_system \<Rightarrow> (string \<times> profile) list \<Rightarrow> system_optimizer" where
  "SystemOptimizer_init plat custom_profiles =
     \<lparr>platform = plat, optimized_processes = [],
      optimization_profiles = load_profiles custom_profiles\<rparr>"

definition get_default_profile :: profile where
  "get_default_profile =
     \<lparr>display_name = ''Default'', priority = ''high'', cpu_affinity = ''all'',
      gpu_acceleration = True, memory_optimization = True, disk_priority = Some ''normal'',
      disable_fullscreen_optimization = None\<rparr>"

text \<open>
  Profile selection of \<open>optimize_process\<close>: the named profile when a non-empty name is
  given and known, else the first profile whose key occurs in the lowercased process
  name, else the default profile.
\<close>

definition select_profile ::
  "(string \<times> profile) list \<Rightarrow> string option \<Rightarrow> string \<Rightarrow> profile" where
  "select_profile profiles profile_name process_name =
     (case (case profile_name of
              None \<Rightarrow> None
            | Some n \<Rightarrow> if n \<noteq> [] then map_of profiles n else None) of
        Some prof \<Rightarrow> prof
      | None \<Rightarrow>
          (case find (\<lambda>(key, prof). str_in key process_name) profiles of
             Some (key, prof) \<Rightarrow> prof
           | None \<Rightarrow> get_default_profile))"

definition priority_map :: "(string \<times> int) list" where
  "priority_map =
     [(''idle'', IDLE_PRIORITY_CLASS), (''below_normal'', BELOW_NORMAL_PRIORITY_CLASS),
      (''normal'', NORMAL_PRIORITY_CLASS), (''above_normal'', ABOVE_NORMAL_PRIORITY_CLASS),
      (''high'', HIGH_PRIORITY_CLASS), (''realtime'', REALTIME_PRIORITY_CLASS)]"

definition nice_map :: "(string \<times> int) list" where
  "nice_map =
     [(''idle'', 19), (''below_normal'', 10), (''normal'', 0), (''above_normal'', - 5),
      (''high'', - 10), (''realtime'', - 20)]"

text \<open>
  The five tuning actions. Each returns whether it succeeded and, where it writes to the
  process, the process as it is afterwards; an exception inside is caught and gives
  \<open>False\<close>.
\<close>

definition set_process_priority ::
  "platform_system \<Rightarrow> os_process \<Rightarrow> string \<Rightarrow> bool \<times> os_process" where
  "set_process_priority plat process prio =
     (case map_of (if plat = Windows then priority_map else nice_map) prio of
        None \<Rightarrow> (False, process)
      | Some v \<Rightarrow>
          (case nice_raises process of
             Some e \<Rightarrow> (False, process)
           | None \<Rightarrow> (True, process\<lparr>proc_nice := v\<rparr>)))"

definition affinity_cores :: "nat \<Rightarrow> string \<Rightarrow> nat list option" where
  "affinity_cores n affinity_type =
     (if affinity_type = ''all'' then Some [0..<n]
      else if affinity_type = ''performance_cores'' then
        Some (if n > 4 then [0..<n div 2] else [0..<n])
      else if affinity_type = ''efficiency_cores'' then
        Some (if n > 4 then [n div 2..<n] else [0])
      else None)"

definition set_cpu_affinity :: "nat \<Rightarrow> os_process \<Rightarrow> string \<Rightarrow> bool \<times> os_process" where
  "set_cpu_affinity n process affinity_type =
     (case affinity_cores n affinity_type of
        None \<Rightarrow> (False, process)
      | Some cores \<Rightarrow>
          (case affinity_raises process of
             Some e \<Rightarrow> (False, process)
           | None \<Rightarrow> (True, process\<lparr>proc_cpu_affinity := cores\<rparr>)))"

definition enable_gpu_acceleration :: "platform_system \<Rightarrow> os_process \<Rightarrow> bool" where
  "enable_gpu_acceleration plat process = (plat = Windows \<and> gpu_call_ok process)"

definition optimize_memory :: "platform_system \<Rightarrow> os_process \<Rightarrow> bool" where
  "optimize_memory plat process =
     (if plat = Windows then memory_call_ok process
      else if plat = Linux then memory_call_ok process
      else False)"

definition set_io_priority :: "platform_system \<Rightarrow> os_process \<Rightarrow> string \<Rightarrow> bool" where
  "set_io_priority plat process prio =
     (if plat = Windows then
        prio \<in> set [''low'', ''normal'', ''high'', ''critical''] \<and> io_call_ok process
      else if plat = Linux then
        prio \<in> set [''idle'', ''normal'', ''high''] \<and> io_call_ok process
      else False)"

definition get_process_metrics :: "os_process \<Rightarrow> metrics option" where
  "get_process_metrics process =
     (if metrics_raise process then None
      else Some \<lparr>cpu_percent = proc_cpu_percent process,
                 memory_mb = real (proc_rss process) / 1024 / 1024,
                 num_threads = proc_num_threads process,
                 io_counters = proc_io_counters process\<rparr>)"

text \<open>
  \<open>optimize_process(pid, profile_name)\<close> returns \<open>(success, message)\<close>; the model returns
  the optimizer and the operating system as the call leaves them as well. There is no
  test for an existing record: the actions are applied and the record is stored on every
  call.
\<close>

definition optimize_process ::
  "system_optimizer \<Rightarrow> os_state \<Rightarrow> pid \<Rightarrow> string option
     \<Rightarrow> (bool \<times> string) \<times> system_optimizer \<times> os_state" where
  "optimize_process self os p profile_name =
     (case os_procs os p of
        None \<Rightarrow> ((False, ''Process no longer exists''), self, os)
      | Some process \<Rightarrow>
          (case name_raises process of
             Some NoSuchProcess \<Rightarrow> ((False, ''Process no longer exists''), self, os)
           | Some AccessDenied \<Rightarrow>
               ((False, ''Access denied - try running as administrator''), self, os)
           | Some e \<Rightarrow> ((False, exception_str e), self, os)
           | None \<Rightarrow>
               (let process_name = lower (proc_name process);
                    prof = select_profile (optimization_profiles self) profile_name
                             process_name;
                    (ok_priority, process1) =
                       set_process_priority (platform self) process (priority prof);
                    (ok_affinity, process2) =
                       set_cpu_affinity (os_cpu_count os) process1 (cpu_affinity prof);
                    ok_gpu = (gpu_acceleration prof \<and> platform self = Windows
                              \<and> enable_gpu_acceleration (platform self) process2);
                    ok_memory = (memory_optimization prof
                                 \<and> optimize_memory (platform self) process2);
                    ok_io = (case disk_priority prof of
                               None \<Rightarrow> False
                             | Some d \<Rightarrow> d \<noteq> [] \<and> set_io_priority (platform self) process2 d);
                    optimizations_applied =
                       (if ok_priority then [''priority''] else [])
                     @ (if ok_affinity then [''cpu_affinity''] else [])
                     @ (if ok_gpu then [''gpu_acceleration''] else [])
                     @ (if ok_memory then [''memory_optimization''] else [])
                     @ (if ok_io then [''io_priority''] else []);
                    info = \<lparr>name = proc_name process, applied_profile = prof,
                            timestamp = os_now os, optimizations = optimizations_applied,
                            metrics_before = get_process_metrics process2,
                            boost_percentage = 0\<rparr>
                in ((True, ''Applied '' @ str_of_nat (length optimizations_applied)
                             @ '' optimizations''),
                    self\<lparr>optimized_processes :=
                            AList.update p info (optimized_processes self)\<rparr>,
                    os\<lparr>os_procs := (os_procs os)(p \<mapsto> process2)\<rparr>))))"

text \<open>
  \<open>calculate_boost(pid)\<close>. The \<open>try\<close> block is left through its bare \<open>except\<close> when the
  process is gone, when the getter \<open>process.nice()\<close> raises, or when the arithmetic
  raises; then the stored percentage is returned and nothing is written. A missing
  \<open>cpu_percent\<close> reads as the int 0.
\<close>

definition metric_cpu :: "metrics option \<Rightarrow> py_number" where
  "metric_cpu m = (case m of None \<Rightarrow> PyInt 0 | Some v \<Rightarrow> PyFloat (cpu_percent v))"

definition boost_factors ::
  "float_arithmetic \<Rightarrow> optimization_record \<Rightarrow> os_process \<Rightarrow> int
     \<Rightarrow> py_exception + py_number list" where
  "boost_factors fa info process nice_value =
     (let current_metrics = get_process_metrics process;
          before_metrics = metrics_before info
      in case (if num_value (metric_cpu before_metrics) > 0 then
                 (case num_div fa
                         (num_sub fa (metric_cpu before_metrics) (metric_cpu current_metrics))
                         (metric_cpu before_metrics) of
                    Inl e \<Rightarrow> Inl e
                  | Inr cpu_improvement \<Rightarrow>
                      Inr [py_max0 (num_mul fa cpu_improvement (PyInt 100))])
               else Inr []) of
           Inl e \<Rightarrow> Inl e
         | Inr cpu_factor \<Rightarrow>
             Inr (cpu_factor
                  @ [PyInt (int (length (optimizations info)) * 25)]
                  @ (if nice_value < 32 then [PyInt 30] else [])))"

definition calculate_boost ::
  "float_arithmetic \<Rightarrow> system_optimizer \<Rightarrow> os_state \<Rightarrow> pid \<Rightarrow> int \<times> system_optimizer" where
  "calculate_boost fa self os p =
     (case map_of (optimized_processes self) p of
        None \<Rightarrow> (0, self)
      | Some info \<Rightarrow>
          (case os_procs os p of
             None \<Rightarrow> (boost_percentage info, self)
           | Some process \<Rightarrow>
               (case nice_getter_raises process of
                  Some e \<Rightarrow> (boost_percentage info, self)
                | None \<Rightarrow>
                    (case boost_factors fa info process (proc_nice process) of
                       Inl e \<Rightarrow> (boost_percentage info, self)
                     | Inr factors \<Rightarrow>
                         (let total_boost = min (num_to_int (py_sum fa factors)) 999
                          in (total_boost,
                              self\<lparr>optimized_processes :=
                                     AList.update p (info\<lparr>boost_percentage := total_boost\<rparr>)
                                       (optimized_processes self)\<rparr>))))))"

text \<open>
  \<open>remove_optimization(pid)\<close>: any exception (the process is gone, a setter is refused)
  leaves through the bare \<open>except\<close> and returns \<open>False\<close>; the record is deleted only on
  the path that returns \<open>True\<close>.
\<close>

definition remove_optimization ::
  "system_optimizer \<Rightarrow> os_state \<Rightarrow> pid \<Rightarrow> bool \<times> system_optimizer \<times> os_state" where
  "remove_optimization self os p =
     (case os_procs os p of
        None \<Rightarrow> (False, self, os)
      | Some process \<Rightarrow>
          (case nice_raises process of
             Some e \<Rightarrow> (False, self, os)
           | None \<Rightarrow>
               (let process1 = process\<lparr>proc_nice :=
                      (if platform self = Windows then NORMAL_PRIORITY_CLASS else 0)\<rparr>
                in (case affinity_raises process1 of
                      Some e \<Rightarrow> (False, self, os\<lparr>os_procs := (os_procs os)(p \<mapsto> process1)\<rparr>)
                    | None \<Rightarrow>
                        (True,
                         self\<lparr>optimized_processes :=
                                AList.delete p (optimized_processes self)\<rparr>,
                         os\<lparr>os_procs := (os_procs os)(p \<mapsto>
                                process1\<lparr>proc_cpu_affinity := [0..<os_cpu_count os]\<rparr>)\<rparr>)))))"

text \<open>\<open>get_optimization_stats()\<close>; the division is guarded by the number of records.\<close>

record optimization_stats =
  total_optimized :: nat
  average_boost :: real
  total_boost :: int
  top_processes :: "(pid \<times> string \<times> int) list"

definition get_optimization_stats :: "system_optimizer \<Rightarrow> py_exception + optimization_stats" where
  "get_optimization_stats self =
     (let total_processes = length (optimized_processes self);
          total = sum_list (map (\<lambda>(p, info). boost_percentage info) (optimized_processes self));
          top = take 5 (sorted_reverse (\<lambda>(p, n, b). b)
                  (map (\<lambda>(p, info). (p, name info, boost_percentage info))
                     (optimized_processes self)))
      in case (if total_processes > 0
               then py_truediv (real_of_int total) (real total_processes)
               else Inr 0) of
           Inl e \<Rightarrow> Inl e
         | Inr average \<Rightarrow>
             Inr \<lparr>total_optimized = total_processes, average_boost = average,
                  total_boost = total, top_processes = top\<rparr>)"

section \<open>\<open>src/core/monitor.py\<close>: class \<open>ProcessMonitor\<close>\<close>

text \<open>
  One entry of \<open>psutil.process_iter\<close>, in the order of iteration: the attributes asked
  for (numbers, as \<open>psutil\<close> gives them for a process it may read), the resident set
  size read by \<open>proc.memory_info()\<close> or the exception that call raises, and the
  executable path (\<open>None\<close> when \<open>proc.exe()\<close> raises).
\<close>

record iter_process =
  it_pid :: pid
  it_name :: string
  it_cpu_percent :: real
  it_memory_percent :: real
  it_status :: string
  it_create_time :: real
  it_num_threads :: nat
  it_memory_info :: "py_exception + nat"
  it_exe :: "string option"

text \<open>The dict \<open>pinfo\<close> that \<open>get_processes\<close> returns for a process.\<close>

record process_info =
  info_pid :: pid
  info_name :: string
  info_cpu_percent :: real
  info_memory_percent :: real
  info_status :: string
  info_create_time :: real
  info_num_threads :: nat
  info_memory_mb :: real
  info_exe :: "string option"
  info_age :: real

definition make_pinfo :: "real \<Rightarrow> iter_process \<Rightarrow> nat \<Rightarrow> process_info" where
  "make_pinfo time_now proc rss =
     \<lparr>info_pid = it_pid proc, info_name = it_name proc,
      info_cpu_percent = it_cpu_percent proc, info_memory_percent = it_memory_percent proc,
      info_status = it_status proc, info_create_time = it_create_time proc,
      info_num_threads = it_num_threads proc,
      info_memory_mb = real rss / 1024 / 1024, info_exe = it_exe proc,
      info_age = time_now - it_create_time proc\<rparr>"

definition max_processes :: nat where
  "max_processes = 50"

text \<open>
  The \<open>for\<close> loop of \<open>get_processes\<close>, with \<open>process_count\<close> as an argument: it stops at
  \<open>max_processes\<close> kept entries, skips an entry without CPU use and with less than 0.1
  percent of memory, skips an entry whose \<open>memory_info()\<close> raises one of the three
  exceptions caught, and lets any other exception through.
\<close>

fun collect_processes ::
  "real \<Rightarrow> nat \<Rightarrow> iter_process list \<Rightarrow> py_exception + process_info list" where
  "collect_processes time_now process_count [] = Inr []"
| "collect_processes time_now process_count (proc # rest) =
     (if process_count \<ge> max_processes then Inr []
      else if it_cpu_percent proc = 0 \<and> it_memory_percent proc < 0.1 then
        collect_processes time_now process_count rest
      else
        (case it_memory_info proc of
           Inl e \<Rightarrow>
             if e = NoSuchProcess \<or> e = AccessDenied \<or> e = ZombieProcess then
               collect_processes time_now process_count rest
             else Inl e
         | Inr rss \<Rightarrow>
             (case collect_processes time_now (process_count + 1) rest of
                Inl e \<Rightarrow> Inl e
              | Inr processes \<Rightarrow> Inr (make_pinfo time_now proc rss # processes))))"

definition get_processes :: "real \<Rightarrow> iter_process list \<Rightarrow> py_exception + process_info list" where
  "get_processes time_now table =
     (case collect_processes time_now 0 table of
        Inl e \<Rightarrow> Inl e
      | Inr processes \<Rightarrow> Inr (take 30 (sorted_reverse info_cpu_percent processes)))"

text \<open>
  A subscriber is a function of the snapshot list that acts on the rest of the program
  (\<open>'w\<close>) and may raise. The monitor keeps its subscribers in registration order; the
  messages given to \<open>logger.error\<close> are collected in \<open>error_log\<close>.
\<close>

type_synonym 'w callback = "process_info list \<Rightarrow> 'w \<Rightarrow> py_exception option \<times> 'w"

record 'w process_monitor =
  callbacks :: "'w callback list"
  process_cache :: "(pid \<times> process_info) list"
  error_log :: "string list"

definition add_callback :: "'w process_monitor \<Rightarrow> 'w callback \<Rightarrow> 'w process_monitor" where
  "add_callback self callback = self\<lparr>callbacks := callbacks self @ [callback]\<rparr>"

text \<open>
  \<open>for callback in self.callbacks: callback(processes)\<close>: no \<open>try\<close> stands inside the
  loop, so the first exception ends it.
\<close>

fun notify_callbacks ::
  "'w callback list \<Rightarrow> process_info list \<Rightarrow> 'w \<Rightarrow> py_exception option \<times> 'w" where
  "notify_callbacks [] processes w = (None, w)"
| "notify_callbacks (callback # rest) processes w =
     (case callback processes w of
        (Some e, w') \<Rightarrow> (Some e, w')
      | (None, w') \<Rightarrow> notify_callbacks rest processes w')"

text \<open>
  The body of \<open>while self.monitoring\<close> in \<open>_monitor_loop\<close>: one \<open>try\<close> around the poll,
  the cache update and the notification, whose \<open>except\<close> logs the exception.
\<close>

definition monitor_cycle ::
  "'w process_monitor \<Rightarrow> real \<times> iter_process list \<Rightarrow> 'w \<Rightarrow> 'w process_monitor \<times> 'w" where
  "monitor_cycle self poll w =
     (case get_processes (fst poll) (snd poll) of
        Inl e \<Rightarrow>
          (self\<lparr>error_log := error_log self @ [''Error in monitor loop: '' @ exception_str e]\<rparr>,
           w)
      | Inr processes \<Rightarrow>
          (let self1 = self\<lparr>process_cache :=
                 fold (\<lambda>p. AList.update (info_pid p) p) processes []\<rparr>
           in case notify_callbacks (callbacks self1) processes w of
                (Some e, w') \<Rightarrow>
                  (self1\<lparr>error_log :=
                      error_log self1 @ [''Error in monitor loop: '' @ exception_str e]\<rparr>,
                   w')
              | (None, w') \<Rightarrow> (self1, w')))"

text \<open>
  \<open>_monitor_loop\<close> over the polls made while \<open>self.monitoring\<close> stays set (another thread
  clears the flag): the time and the process table of each.
\<close>

fun monitor_loop ::
  "'w process_monitor \<Rightarrow> (real \<times> iter_process list) list \<Rightarrow> 'w \<Rightarrow> 'w process_monitor \<times> 'w" where
  "monitor_loop self [] w = (self, w)"
| "monitor_loop self (poll # polls) w =
     (case monitor_cycle self poll w of (self', w') \<Rightarrow> monitor_loop self' polls w')"

section \<open>\<open>src/core/game_detector.py\<close>: class \<open>GameDetector\<close>\<close>

text \<open>The values of the known-games table, and the entries of a detection.\<close>

record known_game =
  known_name :: string
  known_type :: string

text \<open>
  \<open>detected_by\<close> is \<open>None\<close> for an entry without that key: the entry of a known game is
  a copy of its table row with \<open>pid\<close> and \<open>process_name\<close> added.
\<close>

record detected_game =
  game_name :: string
  game_type :: string
  game_pid :: pid
  process_name :: string
  detected_by :: "string option"

text \<open>
  The stored system settings; \<open>original_settings\<close> is \<open>None\<close> for the empty dict of
  \<open>__init__\<close>.
\<close>

record system_settings =
  power_plan :: string
  gpu_settings :: "(string \<times> string) list"
  network_settings :: "(string \<times> string) list"

text \<open>
  \<open>gaming_processes\<close> is a Python set: a list without duplicates here, whose order is
  the order in which \<open>disable_game_mode\<close> visits it.
\<close>

record game_detector =
  known_games :: "(string \<times> known_game) list"
  gaming_processes :: "pid list"
  game_mode_active :: bool
  original_settings :: "system_settings option"

definition default_games :: "(string \<times> known_game) list" where
  "default_games =
    [(''csgo.exe'', \<lparr>known_name = ''Counter-Strike: Global Offensive'', known_type = ''fps''\<rparr>),
     (''dota2.exe'', \<lparr>known_name = ''Dota 2'', known_type = ''moba''\<rparr>),
     (''valorant.exe'', \<lparr>known_name = ''Valorant'', known_type = ''fps''\<rparr>),
     (''leagueoflegends.exe'', \<lparr>known_name = ''League of Legends'', known_type = ''moba''\<rparr>),
     (''overwatch.exe'', \<lparr>known_name = ''Overwatch'', known_type = ''fps''\<rparr>),
     (''gta5.exe'', \<lparr>known_name = ''Grand Theft Auto V'', known_type = ''action''\<rparr>),
     (''witcher3.exe'', \<lparr>known_name = ''The Witcher 3'', known_type = ''rpg''\<rparr>),
     (''cyberpunk2077.exe'', \<lparr>known_name = ''Cyberpunk 2077'', known_type = ''rpg''\<rparr>),
     (''minecraft.exe'', \<lparr>known_name = ''Minecraft'', known_type = ''sandbox''\<rparr>),
     (''fortnite.exe'', \<lparr>known_name = ''Fortnite'', known_type = ''battle_royale''\<rparr>),
     (''apex_legends.exe'', \<lparr>known_name = ''Apex Legends'', known_type = ''battle_royale''\<rparr>),
     (''pubg.exe'', \<lparr>known_name = ''PUBG'', known_type = ''battle_royale''\<rparr>),
     (''rocketleague.exe'', \<lparr>known_name = ''Rocket League'', known_type = ''sports''\<rparr>),
     (''fifa23.exe'', \<lparr>known_name = ''FIFA 23'', known_type = ''sports''\<rparr>),
     (''cod.exe'', \<lparr>known_name = ''Call of Duty'', known_type = ''fps''\<rparr>),
     (''battlefield.exe'', \<lparr>known_name = ''Battlefield'', known_type = ''fps''\<rparr>),
     (''rdr2.exe'', \<lparr>known_name = ''Red Dead Redemption 2'', known_type = ''action''\<rparr>),
     (''eldenring.exe'', \<lparr>known_name = ''Elden Ring'', known_type = ''rpg''\<rparr>)]"

definition load_game_database :: "(string \<times> known_game) list \<Rightarrow> (string \<times> known_game) list" where
  "load_game_database custom_games =
     fold (\<lambda>(k, v). AList.update k v) custom_games default_games"

definition GameDetector_init :: "(string \<times> known_game) list \<Rightarrow> game_detector" where
  "GameDetector_init custom_games =
     \<lparr>known_games = load_game_database custom_games, gaming_processes = [],
      game_mode_active = False, original_settings = None\<rparr>"

definition game_indicators :: "string list" where
  "game_indicators =
     [''unreal'', ''unity'', ''cryengine'', ''frostbite'', ''gameoverlayui'',
      ''d3d'', ''opengl'', ''vulkan'', ''directx'']"

text \<open>
  \<open>_check_gpu_usage\<close> asks \<open>GPUtil.getGPUs()\<close> for the loads of the GPUs; \<open>None\<close> is a
  failing import or call. The pid is not used.
\<close>

type_synonym gpu_reading = "real list option"

definition check_gpu_usage :: "gpu_reading \<Rightarrow> bool" where
  "check_gpu_usage reading =
     (case reading of
        None \<Rightarrow> False
      | Some [] \<Rightarrow> False
      | Some (load # others) \<Rightarrow> load > 0.3)"

text \<open>
  The \<open>for\<close> loop of \<open>detect_games\<close>. \<open>gpu i\<close> is the reading that the GPU facility gives
  when the check is made for the \<open>i\<close>-th process of the list. Every branch that appends
  an entry also adds the pid to \<open>self.gaming_processes\<close>.
\<close>

fun detect_loop ::
  "game_detector \<Rightarrow> (nat \<Rightarrow> gpu_reading) \<Rightarrow> nat \<Rightarrow> process_info list
     \<Rightarrow> detected_game list \<times> game_detector" where
  "detect_loop self gpu i [] = ([], self)"
| "detect_loop self gpu i (process # rest) =
     (let pname = lower (info_name process);
          self' = self\<lparr>gaming_processes :=
                    List.insert (info_pid process) (gaming_processes self)\<rparr>
      in case map_of (known_games self) pname of
           Some row \<Rightarrow>
             (case detect_loop self' gpu (Suc i) rest of
                (detected, self'') \<Rightarrow>
                  (\<lparr>game_name = known_name row, game_type = known_type row,
                    game_pid = info_pid process, process_name = pname,
                    detected_by = None\<rparr> # detected, self''))
         | None \<Rightarrow>
             if list_ex (\<lambda>indicator. str_in indicator pname) game_indicators then
               (case detect_loop self' gpu (Suc i) rest of
                  (detected, self'') \<Rightarrow>
                    (\<lparr>game_name = info_name process, game_type = ''unknown'',
                      game_pid = info_pid process, process_name = pname,
                      detected_by = Some ''indicator''\<rparr> # detected, self''))
             else if check_gpu_usage (gpu i) then
               (case detect_loop self' gpu (Suc i) rest of
                  (detected, self'') \<Rightarrow>
                    (\<lparr>game_name = info_name process, game_type = ''unknown'',
                      game_pid = info_pid process, process_name = pname,
                      detected_by = Some ''gpu_usage''\<rparr> # detected, self''))
             else detect_loop self gpu (Suc i) rest)"

definition detect_games ::
  "game_detector \<Rightarrow> (nat \<Rightarrow> gpu_reading) \<Rightarrow> process_info list
     \<Rightarrow> detected_game list \<times> game_detector" where
  "detect_games self gpu processes = detect_loop self gpu 0 processes"

text \<open>
  The power plan: \<open>os_power_plan\<close> is the GUID of the active scheme, which \<open>powercfg\<close>
  prints and sets where it exists (\<open>os_powercfg_ok\<close>); both helpers swallow every
  exception.
\<close>

definition power_plans :: "(string \<times> string) list" where
  "power_plans =
     [(''balanced'', ''381b4222-f694-41f0-9685-ff5bb260df2e''),
      (''high_performance'', ''8c5e7fda-e8bf-4a96-9a85-a6e23a8c635c''),
      (''power_saver'', ''a1841308-3541-4fab-bc81-f71556f20b4a'')]"

definition set_power_plan :: "os_state \<Rightarrow> string \<Rightarrow> os_state" where
  "set_power_plan os plan =
     (case map_of power_plans plan of
        None \<Rightarrow> os
      | Some guid \<Rightarrow> if os_powercfg_ok os then os\<lparr>os_power_plan := guid\<rparr> else os)"

definition get_power_plan :: "os_state \<Rightarrow> string" where
  "get_power_plan os =
     (let result = (if os_powercfg_ok os then os_power_plan os else [])
      in if str_in ''381b4222'' result then ''balanced''
         else if str_in ''8c5e7fda'' result then ''high_performance''
         else if str_in ''a1841308'' result then ''power_saver''
         else ''balanced'')"

definition store_original_settings :: "game_detector \<Rightarrow> os_state \<Rightarrow> game_detector" where
  "store_original_settings self os =
     self\<lparr>original_settings :=
        Some \<lparr>power_plan = get_power_plan os, gpu_settings = [], network_settings = []\<rparr>\<rparr>"

definition restore_original_settings :: "game_detector \<Rightarrow> os_state \<Rightarrow> os_state" where
  "restore_original_settings self os =
     (case original_settings self of
        None \<Rightarrow> os
      | Some settings \<Rightarrow> set_power_plan os (power_plan settings))"

text \<open>
  \<open>_apply_game_optimizations\<close>: \<open>_optimize_for_fps\<close> swallows every exception and writes
  nothing that is modelled here; the class defines neither \<open>_optimize_for_moba\<close> nor
  \<open>_optimize_for_rpg\<close>, so these two branches raise \<open>AttributeError\<close>.
\<close>

definition apply_game_optimizations :: "detected_game \<Rightarrow> py_exception option" where
  "apply_game_optimizations game =
     (if game_type game = ''fps'' then None
      else if game_type game = ''moba'' then Some (AttributeError ''_optimize_for_moba'')
      else if game_type game = ''rpg'' then Some (AttributeError ''_optimize_for_rpg'')
      else None)"

fun optimize_games ::
  "system_optimizer \<Rightarrow> os_state \<Rightarrow> detected_game list
     \<Rightarrow> py_exception option \<times> system_optimizer \<times> os_state" where
  "optimize_games optimizer os [] = (None, optimizer, os)"
| "optimize_games optimizer os (game # rest) =
     (case optimize_process optimizer os (game_pid game) (Some ''game'') of
        (result, optimizer', os') \<Rightarrow>
          (case apply_game_optimizations game of
             Some e \<Rightarrow> (Some e, optimizer', os')
           | None \<Rightarrow> optimize_games optimizer' os' rest))"

text \<open>
  \<open>enable_game_mode(optimizer, detected_games)\<close>; the first component of the result is
  the exception that leaves the call, if any. Of \<open>_apply_system_game_mode\<close> the power
  plan is modelled; its other steps (Game Bar, GPU mode, network) swallow their
  exceptions and write to parts of the system that no function here reads.
\<close>

definition enable_game_mode ::
  "game_detector \<Rightarrow> system_optimizer \<Rightarrow> os_state \<Rightarrow> detected_game list
     \<Rightarrow> py_exception option \<times> game_detector \<times> system_optimizer \<times> os_state" where
  "enable_game_mode self optimizer os detected_games =
     (if game_mode_active self then (None, self, optimizer, os)
      else
        (let self1 = store_original_settings self os
         in case optimize_games optimizer os detected_games of
              (Some e, optimizer', os') \<Rightarrow> (Some e, self1, optimizer', os')
            | (None, optimizer', os') \<Rightarrow>
                (None, self1\<lparr>game_mode_active := True\<rparr>, optimizer',
                 set_power_plan os' ''high_performance'')))"

fun remove_optimizations ::
  "system_optimizer \<Rightarrow> os_state \<Rightarrow> pid list \<Rightarrow> system_optimizer \<times> os_state" where
  "remove_optimizations optimizer os [] = (optimizer, os)"
| "remove_optimizations optimizer os (p # rest) =
     (case remove_optimization optimizer os p of
        (ok, optimizer', os') \<Rightarrow> remove_optimizations optimizer' os' rest)"

text \<open>
  \<open>disable_game_mode(optimizer)\<close>: nothing in it assigns \<open>self.original_settings\<close>.
\<close>

definition disable_game_mode ::
  "game_detector \<Rightarrow> system_optimizer \<Rightarrow> os_state
     \<Rightarrow> game_detector \<times> system_optimizer \<times> os_state" where
  "disable_game_mode self optimizer os =
     (if \<not> game_mode_active self then (self, optimizer, os)
      else
        (case remove_optimizations optimizer os (gaming_processes self) of
           (optimizer', os') \<Rightarrow>
             (self\<lparr>gaming_processes := [], game_mode_active := False\<rparr>, optimizer',
              restore_original_settings self os')))"

text \<open>
  Call sequences on a detector, its optimizer and the operating system: the three public
  operations, and the operating system changing by itself between two calls.
\<close>

datatype detector_call =
    CallDetect "process_info list" "nat \<Rightarrow> gpu_reading"
  | CallEnable "detected_game list"
  | CallDisable
  | OsChanges os_state

fun run_call ::
  "detector_call \<Rightarrow> game_detector \<times> system_optimizer \<times> os_state
     \<Rightarrow> game_detector \<times> system_optimizer \<times> os_state" where
  "run_call (CallDetect processes gpu) (self, optimizer, os) =
     (snd (detect_games self gpu processes), optimizer, os)"
| "run_call (CallEnable games) (self, optimizer, os) =
     snd (enable_game_mode self optimizer os games)"
| "run_call CallDisable (self, optimizer, os) = disable_game_mode self optimizer os"
| "run_call (OsChanges os') (self, optimizer, os) = (self, optimizer, os')"

definition run_calls ::
  "detector_call list \<Rightarrow> game_detector \<times> system_optimizer \<times> os_state
     \<Rightarrow> game_detector \<times> system_optimizer \<times> os_state" where
  "run_calls calls state = fold run_call calls state"

section \<open>\<open>src/core/scheduler.py\<close>: class \<open>OptimizationScheduler\<close>\<close>

text \<open>An action of a schedule: the dict with its \<open>type\<close> and the keys the types read.\<close>

record action =
  action_type :: "string option"
  action_apps :: "string list"
  action_profile :: "string option"
  action_script :: "string option"

text \<open>
  The \<open>schedule\<close> library is not part of the repository. A job is what the scheduler
  asks of it: the period (\<open>every(n)\<close>, \<open>every()\<close> being \<open>every(1)\<close>), the unit or weekday
  and, for \<open>.at(t)\<close>, the time; the function it is to call; and the \<open>next_run\<close> the
  library computes. The library is taken as a parameter \<open>lib\<close>: for a request and the
  current time, the \<open>next_run\<close> of the new job or the exception raised (an unknown
  weekday, a time that is missing or malformed).
\<close>

datatype job_request =
    Every "nat option" string
  | EveryAt "nat option" string "string option"

datatype job_func = RunSchedule string | CheckIdleAndRun string

record job =
  job_request :: job_request
  job_func :: job_func
  job_next_run :: nat

type_synonym schedule_library = "job_request \<Rightarrow> nat \<Rightarrow> py_exception + nat"

record schedule_info =
  schedule_id :: string
  schedule_name :: string
  schedule_type :: string
  schedule_time :: "string option"
  schedule_days :: "string list"
  schedule_interval :: "nat option"
  schedule_actions :: "action list"
  schedule_enabled :: bool
  schedule_created :: nat
  last_run :: "nat option"
  next_run :: "nat option"
  schedule_job :: "job option"

text \<open>What \<open>_save_schedules\<close> writes for a schedule.\<close>

record saved_schedule =
  saved_name :: string
  saved_type :: string
  saved_time :: "string option"
  saved_days :: "string list"
  saved_interval :: "nat option"
  saved_actions :: "action list"
  saved_enabled :: bool
  saved_last_run :: "nat option"
  saved_next_run :: "nat option"

text \<open>
  The scheduler with what it writes to outside itself: the jobs registered with the
  library, the schedules file, and the messages given to \<open>logger.error\<close>. \<open>'w\<close> is the
  rest of the program (monitor, optimizer, operating system), on which the actions and
  the callbacks act.
\<close>

type_synonym 'w schedule_callback =
  "string \<Rightarrow> schedule_info \<Rightarrow> 'w \<Rightarrow> py_exception option \<times> 'w"

record 'w optimization_scheduler =
  schedules :: "(string \<times> schedule_info) list"
  schedule_callbacks :: "'w schedule_callback list"
  library_jobs :: "job list"
  schedules_file :: "(string \<times> saved_schedule) list"
  schedule_error_log :: "string list"

text \<open>
  \<open>_execute_action\<close> works on the monitor and the optimizer; it is the parameter
  \<open>execute_action\<close> of the functions below: what an action does to the rest of the
  program, and the exception it raises, if any.
\<close>

type_synonym 'w action_executor = "action \<Rightarrow> 'w \<Rightarrow> py_exception option \<times> 'w"

definition save_schedules :: "'w optimization_scheduler \<Rightarrow> 'w optimization_scheduler" where
  "save_schedules self =
     self\<lparr>schedules_file :=
        map (\<lambda>(sid, info).
               (sid, \<lparr>saved_name = schedule_name info, saved_type = schedule_type info,
                      saved_time = schedule_time info, saved_days = schedule_days info,
                      saved_interval = schedule_interval info,
                      saved_actions = schedule_actions info,
                      saved_enabled = schedule_enabled info,
                      saved_last_run = last_run info, saved_next_run = next_run info\<rparr>))
          (schedules self)\<rparr>"

text \<open>
  The \<open>for action in schedule_info['actions']\<close> loop of \<open>_run_schedule\<close>: each action in
  its own \<open>try\<close>, a failure logged.
\<close>

fun execute_actions ::
  "'w action_executor \<Rightarrow> action list \<Rightarrow> 'w optimization_scheduler \<times> 'w
     \<Rightarrow> 'w optimization_scheduler \<times> 'w" where
  "execute_actions execute_action [] (self, w) = (self, w)"
| "execute_actions execute_action (a # rest) (self, w) =
     (case execute_action a w of
        (None, w') \<Rightarrow> execute_actions execute_action rest (self, w')
      | (Some e, w') \<Rightarrow>
          execute_actions execute_action rest
            (self\<lparr>schedule_error_log := schedule_error_log self
                     @ [''Failed to execute action: '' @ exception_str e]\<rparr>, w'))"

fun notify_schedule_callbacks ::
  "'w schedule_callback list \<Rightarrow> string \<Rightarrow> schedule_info \<Rightarrow> 'w \<Rightarrow> py_exception option \<times> 'w" where
  "notify_schedule_callbacks [] sid info w = (None, w)"
| "notify_schedule_callbacks (callback # rest) sid info w =
     (case callback sid info w of
        (Some e, w') \<Rightarrow> (Some e, w')
      | (None, w') \<Rightarrow> notify_schedule_callbacks rest sid info w')"

text \<open>
  \<open>_run_schedule(schedule_id)\<close>: it looks the schedule up in \<open>self.schedules\<close> and returns
  at once when the id is not a key there, or when the schedule is disabled.
\<close>

definition run_schedule ::
  "'w action_executor \<Rightarrow> nat \<Rightarrow> string \<Rightarrow> 'w optimization_scheduler \<times> 'w
     \<Rightarrow> py_exception option \<times> 'w optimization_scheduler \<times> 'w" where
  "run_schedule execute_action time_now sid state =
     (case map_of (schedules (fst state)) sid of
        None \<Rightarrow> (None, state)
      | Some info \<Rightarrow>
          if \<not> schedule_enabled info then (None, state)
          else
            (case execute_actions execute_action (schedule_actions info) state of
               (self1, w1) \<Rightarrow>
                 (let info1 = info\<lparr>last_run := Some time_now\<rparr>;
                      info2 = (case schedule_job info1 of
                                 None \<Rightarrow> info1
                               | Some j \<Rightarrow> info1\<lparr>next_run := Some (job_next_run j)\<rparr>);
                      self2 = save_schedules
                                (self1\<lparr>schedules := AList.update sid info2 (schedules self1)\<rparr>)
                  in case notify_schedule_callbacks (schedule_callbacks self2) sid info2 w1 of
                       (e, w2) \<Rightarrow> (e, self2, w2))))"

text \<open>
  \<open>schedule.every(...)...do(f, schedule_id)\<close>: the library registers the job, or raises.
\<close>

definition register_job ::
  "schedule_library \<Rightarrow> nat \<Rightarrow> job_request \<Rightarrow> job_func \<Rightarrow> 'w optimization_scheduler
     \<Rightarrow> py_exception + job \<times> 'w optimization_scheduler" where
  "register_job lib time_now request f self =
     (case lib request time_now of
        Inl e \<Rightarrow> Inl e
      | Inr t \<Rightarrow>
          (let j = \<lparr>job_request = request, job_func = f, job_next_run = t\<rparr>
           in Inr (j, self\<lparr>library_jobs := library_jobs self @ [j]\<rparr>)))"

text \<open>
  The \<open>weekly\<close> branch of \<open>_create_job\<close>: a job for each day; \<open>bound\<close> is the variable
  \<open>job\<close>, unbound before the first day. The scheduler is returned with the exception as
  well: the jobs of the days before the failing one stay registered.
\<close>

fun weekly_jobs ::
  "schedule_library \<Rightarrow> nat \<Rightarrow> string \<Rightarrow> string option \<Rightarrow> string list \<Rightarrow> job option
     \<Rightarrow> 'w optimization_scheduler
     \<Rightarrow> py_exception option \<times> job option \<times> 'w optimization_scheduler" where
  "weekly_jobs lib time_now sid t [] bound self = (None, bound, self)"
| "weekly_jobs lib time_now sid t (day # rest) bound self =
     (case register_job lib time_now (EveryAt (Some 1) (lower day) t) (RunSchedule sid) self of
        Inl e \<Rightarrow> (Some e, bound, self)
      | Inr (j, self') \<Rightarrow> weekly_jobs lib time_now sid t rest (Some j) self')"

text \<open>
  \<open>_create_job(schedule_id, schedule_info)\<close> returns the exception that leaves it (if
  any), the dict \<open>schedule_info\<close> as it has written to it, and the state.
\<close>

definition attach_job :: "job option \<Rightarrow> schedule_info \<Rightarrow> schedule_info" where
  "attach_job j info =
     (case j of
        None \<Rightarrow> info
      | Some jb \<Rightarrow> info\<lparr>schedule_job := Some jb, next_run := Some (job_next_run jb)\<rparr>)"

definition create_job ::
  "schedule_library \<Rightarrow> 'w action_executor \<Rightarrow> nat \<Rightarrow> string \<Rightarrow> schedule_info
     \<Rightarrow> 'w optimization_scheduler \<times> 'w
     \<Rightarrow> py_exception option \<times> schedule_info \<times> 'w optimization_scheduler \<times> 'w" where
  "create_job lib execute_action time_now sid info state =
     (if schedule_type info = ''daily'' then
        (case register_job lib time_now (EveryAt (Some 1) ''day'' (schedule_time info))
                (RunSchedule sid) (fst state) of
           Inl e \<Rightarrow> (Some e, info, state)
         | Inr (j, self') \<Rightarrow> (None, attach_job (Some j) info, self', snd state))
      else if schedule_type info = ''weekly'' then
        (case weekly_jobs lib time_now sid (schedule_time info) (schedule_days info) None
                (fst state) of
           (Some e, bound, self') \<Rightarrow> (Some e, info, self', snd state)
         | (None, None, self') \<Rightarrow> (Some (UnboundLocalError ''job''), info, self', snd state)
         | (None, Some j, self') \<Rightarrow> (None, attach_job (Some j) info, self', snd state))
      else if schedule_type info = ''interval'' then
        (case register_job lib time_now (Every (schedule_interval info) ''minutes'')
                (RunSchedule sid) (fst state) of
           Inl e \<Rightarrow> (Some e, info, state)
         | Inr (j, self') \<Rightarrow> (None, attach_job (Some j) info, self', snd state))
      else if schedule_type info = ''startup'' then
        (case run_schedule execute_action time_now sid state of
           (Some e, state') \<Rightarrow> (Some e, info, state')
         | (None, state') \<Rightarrow> (None, attach_job None info, state'))
      else if schedule_type info = ''idle'' then
        (case register_job lib time_now (Every (Some 5) ''minutes'')
                (CheckIdleAndRun sid) (fst state) of
           Inl e \<Rightarrow> (Some e, info, state)
         | Inr (j, self') \<Rightarrow> (None, attach_job (Some j) info, self', snd state))
      else (None, attach_job None info, state))"

text \<open>
  \<open>add_schedule\<close>. \<open>new_id\<close> is the string of the fresh \<open>uuid.uuid4()\<close>. The job is
  created \<^emph>\<open>before\<close> the schedule is stored under its id. The result is the id returned,
  or the exception that leaves the call.
\<close>

definition add_schedule ::
  "schedule_library \<Rightarrow> 'w action_executor \<Rightarrow> nat \<Rightarrow> string
     \<Rightarrow> string \<Rightarrow> string \<Rightarrow> string option \<Rightarrow> string list option \<Rightarrow> nat option
     \<Rightarrow> action list option \<Rightarrow> bool
     \<Rightarrow> 'w optimization_scheduler \<times> 'w
     \<Rightarrow> (py_exception + string) \<times> 'w optimization_scheduler \<times> 'w" where
  "add_schedule lib execute_action time_now new_id
       name_arg type_arg time_str days interval actions enabled state =
     (let info0 = \<lparr>schedule_id = new_id, schedule_name = name_arg, schedule_type = type_arg,
                   schedule_time = time_str,
                   schedule_days = (case days of None \<Rightarrow> [] | Some ds \<Rightarrow> ds),
                   schedule_interval = interval,
                   schedule_actions = (case actions of None \<Rightarrow> [] | Some acts \<Rightarrow> acts),
                   schedule_enabled = enabled, schedule_created = time_now,
                   last_run = None, next_run = None, schedule_job = None\<rparr>
      in case (if enabled then create_job lib execute_action time_now new_id info0 state
               else (None, info0, state)) of
           (Some e, info1, state1) \<Rightarrow> (Inl e, state1)
         | (None, info1, self1, w1) \<Rightarrow>
             (Inr new_id,
              save_schedules (self1\<lparr>schedules := AList.update new_id info1 (schedules self1)\<rparr>),
              w1))"

definition OptimizationScheduler_init :: "'w optimization_scheduler" where
  "OptimizationScheduler_init =
     \<lparr>schedules = [], schedule_callbacks = [], library_jobs = [], schedules_file = [],
      schedule_error_log = []\<rparr>"

text \<open>
  An executor that only records the actions it is given, in the order of execution:
  the rest of the program is then the list of the actions executed so far.
\<close>

definition recording_executor :: "(action list) action_executor" where
  "recording_executor a executed = (None, executed @ [a])"

section \<open>Example states\<close>

text \<open>
  A Linux host with four cores and one process, pid 100, named \<open>csgo.exe\<close>. At time 1 the
  process runs at nice 0 on core 0 and uses 8 percent of CPU. A first
  \<open>optimize_process(100)\<close> on a new optimizer then selects the default profile (no
  profile key occurs in the name), applies four actions and stores \<open>example_record\<close>. At
  time 2 the process, now at nice -10 on all cores, uses 7 percent of CPU.
\<close>

definition example_process_before :: os_process where
  "example_process_before =
     \<lparr>proc_name = ''csgo.exe'', proc_nice = 0, proc_cpu_affinity = [0],
      proc_cpu_percent = 8, proc_rss = 1048576, proc_num_threads = 4,
      proc_io_counters = [], name_raises = None, nice_raises = None,
      nice_getter_raises = None, affinity_raises = None, metrics_raise = False, gpu_call_ok = True,
      memory_call_ok = True, io_call_ok = True\<rparr>"

definition example_os_before :: os_state where
  "example_os_before =
     \<lparr>os_procs = [100 \<mapsto> example_process_before], os_cpu_count = 4, os_now = 1,
      os_power_plan = ''381b4222-f694-41f0-9685-ff5bb260df2e'', os_powercfg_ok = True\<rparr>"

definition example_record :: optimization_record where
  "example_record =
     \<lparr>name = ''csgo.exe'', applied_profile = get_default_profile, timestamp = 1,
      optimizations = [''priority'', ''cpu_affinity'', ''memory_optimization'',
                       ''io_priority''],
      metrics_before = Some \<lparr>cpu_percent = 8, memory_mb = 1, num_threads = 4,
                              io_counters = []\<rparr>,
      boost_percentage = 0\<rparr>"

definition example_optimizer :: system_optimizer where
  "example_optimizer =
     (SystemOptimizer_init Linux [])\<lparr>optimized_processes := [(100, example_record)]\<rparr>"

definition example_process :: os_process where
  "example_process =
     example_process_before
       \<lparr>proc_nice := - 10, proc_cpu_affinity := [0..<4], proc_cpu_percent := 7\<rparr>"

definition example_os :: os_state where
  "example_os = example_os_before\<lparr>os_procs := [100 \<mapsto> example_process], os_now := 2\<rparr>"

text \<open>
  The host at time 2 with the process back at nice 0, with its priority setter refused,
  and without the process.
\<close>

definition example_os_normal :: os_state where
  "example_os_normal =
     example_os\<lparr>os_procs := [100 \<mapsto> example_process\<lparr>proc_nice := 0\<rparr>]\<rparr>"

definition example_os_denied :: os_state where
  "example_os_denied =
     example_os\<lparr>os_procs := [100 \<mapsto> example_process\<lparr>nice_raises := Some AccessDenied\<rparr>]\<rparr>"

definition example_os_gone :: os_state where
  "example_os_gone = example_os\<lparr>os_procs := Map.empty\<rparr>"

text \<open>
  The host at time 2 with the affinity setter of the process refused, and with its
  priority getter refused.
\<close>

definition example_os_affinity_denied :: os_state where
  "example_os_affinity_denied =
     example_os\<lparr>os_procs := [100 \<mapsto> example_process\<lparr>affinity_raises := Some AccessDenied\<rparr>]\<rparr>"

definition example_os_unreadable :: os_state where
  "example_os_unreadable =
     example_os\<lparr>os_procs :=
        [100 \<mapsto> example_process\<lparr>nice_getter_raises := Some AccessDenied\<rparr>]\<rparr>"

text \<open>
  Float arithmetic without rounding. It is the arithmetic of Python wherever every
  intermediate result is a double already, as in the examples here: 8 - 7, 1 / 8,
  0.125 * 100 and the sums 12.5 + 100 + 30 are exact in binary.
\<close>

definition exact_arithmetic :: float_arithmetic where
  "exact_arithmetic = \<lparr>round_nearest = (\<lambda>x. x), float_sum = sum_list\<rparr>"

section \<open>The boost score in the words of the specification\<close>

text \<open>
  The CPU-improvement term \<open>max(0, (cpu_before - cpu_now) / cpu_before) * 100\<close>, only if
  \<open>cpu_before > 0\<close>; 25 per applied action; 30 if the effective priority is above the
  platform's normal tier; the sum clamped to [0, 999]. A priority is above the normal
  tier on Windows when its class is above-normal, high or realtime, elsewhere when the
  nice value is negative.
\<close>

definition spec_cpu_term :: "real \<Rightarrow> real \<Rightarrow> real" where
  "spec_cpu_term cpu_before cpu_now =
     (if cpu_before > 0 then max 0 ((cpu_before - cpu_now) / cpu_before) * 100 else 0)"

text \<open>
  The CPU-improvement term as Python computes it from the two readings: the factor
  \<open>max(0, (cpu_before - cpu_now) / cpu_before * 100)\<close> in the given float arithmetic,
  present only if \<open>cpu_before > 0\<close>.
\<close>

definition cpu_improvement_factor ::
  "float_arithmetic \<Rightarrow> py_number \<Rightarrow> py_number \<Rightarrow> py_number list" where
  "cpu_improvement_factor fa cpu_before cpu_now =
     (if num_value cpu_before > 0
      then [py_max0 (num_mul fa (float_quotient fa (num_sub fa cpu_before cpu_now) cpu_before)
                       (PyInt 100))]
      else [])"

definition above_normal_priority :: "platform_system \<Rightarrow> int \<Rightarrow> bool" where
  "above_normal_priority plat v =
     (if plat = Windows
      then v = ABOVE_NORMAL_PRIORITY_CLASS \<or> v = HIGH_PRIORITY_CLASS
           \<or> v = REALTIME_PRIORITY_CLASS
      else v < 0)"

definition spec_compute_boost :: "real \<Rightarrow> real \<Rightarrow> nat \<Rightarrow> bool \<Rightarrow> real" where
  "spec_compute_boost cpu_before cpu_now actions_applied above_normal =
     max 0 (min 999 (spec_cpu_term cpu_before cpu_now + 25 * real actions_applied
                      + (if above_normal then 30 else 0)))"

section \<open>The classification cascade in the words of the specification\<close>

text \<open>
  The rules in their fixed order: an exact match of the lowercased process name in the
  known-games table, then an indicator token occurring in it, then the GPU-load
  heuristic; the first rule that matches classifies the process.
\<close>

datatype detection_rule = KnownGame | IndicatorToken | GpuLoad

definition first_matching_rule ::
  "(string \<times> known_game) list \<Rightarrow> gpu_reading \<Rightarrow> process_info \<Rightarrow> detection_rule option" where
  "first_matching_rule known reading process =
     (if map_of known (lower (info_name process)) \<noteq> None then Some KnownGame
      else if list_ex (\<lambda>indicator. str_in indicator (lower (info_name process)))
                game_indicators then Some IndicatorToken
      else if check_gpu_usage reading then Some GpuLoad
      else None)"

text \<open>
  The label that the code gives to an entry of each rule (none for a known game), and the
  entry: the row of the table for a known game, the process's own name and the type
  \<open>unknown\<close> for the two heuristics.
\<close>

definition rule_label :: "detection_rule \<Rightarrow> string option" where
  "rule_label rule =
     (case rule of
        KnownGame \<Rightarrow> None
      | IndicatorToken \<Rightarrow> Some ''indicator''
      | GpuLoad \<Rightarrow> Some ''gpu_usage'')"

definition rule_entry ::
  "(string \<times> known_game) list \<Rightarrow> process_info \<Rightarrow> detection_rule \<Rightarrow> detected_game" where
  "rule_entry known process rule =
     \<lparr>game_name = (case (rule, map_of known (lower (info_name process))) of
                     (KnownGame, Some row) \<Rightarrow> known_name row
                   | _ \<Rightarrow> info_name process),
      game_type = (case (rule, map_of known (lower (info_name process))) of
                     (KnownGame, Some row) \<Rightarrow> known_type row
                   | _ \<Rightarrow> ''unknown''),
      game_pid = info_pid process,
      process_name = lower (info_name process),
      detected_by = rule_label rule\<rparr>"

text \<open>A snapshot of a process with a given pid and name, and two GPU facilities.\<close>

definition example_snapshot :: "pid \<Rightarrow> string \<Rightarrow> process_info" where
  "example_snapshot p n =
     \<lparr>info_pid = p, info_name = n, info_cpu_percent = 40, info_memory_percent = 5,
      info_status = ''running'', info_create_time = 0, info_num_threads = 8,
      info_memory_mb = 512, info_exe = None, info_age = 100\<rparr>"

definition no_gpu :: "nat \<Rightarrow> gpu_reading" where
  "no_gpu i = None"

definition busy_gpu :: "nat \<Rightarrow> gpu_reading" where
  "busy_gpu i = Some [1 / 2]"

text \<open>
  The entry that \<open>detect_games\<close> returns for the snapshot of pid 100, and the detector
  after that detection and \<open>enable_game_mode\<close> at time 1: in game mode, tracking the
  pid, with the settings stored by the enabling call.
\<close>

definition example_game :: detected_game where
  "example_game =
     \<lparr>game_name = ''Counter-Strike: Global Offensive'', game_type = ''fps'',
      game_pid = 100, process_name = ''csgo.exe'', detected_by = None\<rparr>"

definition example_active_detector :: game_detector where
  "example_active_detector =
     (GameDetector_init [])
       \<lparr>gaming_processes := [100], game_mode_active := True,
        original_settings :=
          Some \<lparr>power_plan = ''balanced'', gpu_settings = [], network_settings = []\<rparr>\<rparr>"

text \<open>
  The state in which the program starts at time 1, and the two calls that lead to game
  mode: detection on the snapshot of pid 100, then enabling for the entry detected.
\<close>

definition example_start :: "game_detector \<times> system_optimizer \<times> os_state" where
  "example_start = (GameDetector_init [], SystemOptimizer_init Linux [], example_os_before)"

definition example_calls :: "detector_call list" where
  "example_calls =
     [CallDetect [example_snapshot 100 ''csgo.exe''] no_gpu, CallEnable [example_game]]"

section \<open>The poll in the words of the specification\<close>

text \<open>
  A process is negligible when it uses no CPU and less than 0.1 percent of memory. A
  process is kept by a poll when it is not negligible and its memory can be read; its
  snapshot is then made from the resident set size read.
\<close>

definition negligible :: "iter_process \<Rightarrow> bool" where
  "negligible proc = (it_cpu_percent proc = 0 \<and> it_memory_percent proc < 0.1)"

definition readable :: "iter_process \<Rightarrow> bool" where
  "readable proc = (\<not> negligible proc \<and> (case it_memory_info proc of Inl e \<Rightarrow> False | Inr rss \<Rightarrow> True))"

definition snapshot_of :: "real \<Rightarrow> iter_process \<Rightarrow> process_info" where
  "snapshot_of time_now proc =
     make_pinfo time_now proc (case it_memory_info proc of Inl e \<Rightarrow> 0 | Inr rss \<Rightarrow> rss)"

text \<open>The exceptions of \<open>memory_info()\<close> that \<open>get_processes\<close> catches.\<close>

definition caught_by_poll :: "iter_process \<Rightarrow> bool" where
  "caught_by_poll proc =
     (case it_memory_info proc of
        Inl e \<Rightarrow> e = NoSuchProcess \<or> e = AccessDenied \<or> e = ZombieProcess
      | Inr rss \<Rightarrow> True)"

text \<open>
  A process table of 51 readable processes: pids 0 to 49 at 1 percent of CPU, then pid 50
  at 99 percent.
\<close>

definition example_iter_process :: "pid \<Rightarrow> real \<Rightarrow> iter_process" where
  "example_iter_process p cpu =
     \<lparr>it_pid = p, it_name = ''worker'', it_cpu_percent = cpu, it_memory_percent = 1,
      it_status = ''running'', it_create_time = 0, it_num_threads = 1,
      it_memory_info = Inr 1048576, it_exe = None\<rparr>"

definition example_table :: "iter_process list" where
  "example_table =
     map (\<lambda>i. example_iter_process (int i) 1) [0..<50] @ [example_iter_process 50 99]"

text \<open>
  Subscribers that write down, in the rest of the program, their number and the pids of
  the snapshot list they are given; the second kind raises after that.
\<close>

definition recording_subscriber :: "nat \<Rightarrow> ((nat \<times> pid list) list) callback" where
  "recording_subscriber k processes received =
     (None, received @ [(k, map info_pid processes)])"

definition raising_subscriber :: "nat \<Rightarrow> ((nat \<times> pid list) list) callback" where
  "raising_subscriber k processes received =
     (Some (OtherException ''subscriber failed''), received @ [(k, map info_pid processes)])"

definition example_monitor :: "((nat \<times> pid list) list) process_monitor" where
  "example_monitor =
     \<lparr>callbacks = [recording_subscriber 1, raising_subscriber 2, recording_subscriber 3],
      process_cache = [], error_log = []\<rparr>"

definition example_poll :: "real \<times> iter_process list" where
  "example_poll = (1000, [example_iter_process 7 5])"
text \<open>
  A memory-cleaning action, and a library that schedules every job one minute ahead.
\<close>

definition example_action :: action where
  "example_action =
     \<lparr>action_type = Some ''clean_memory'', action_apps = [], action_profile = None,
      action_script = None\<rparr>"

definition example_library :: schedule_library where
  "example_library request time_now = Inr (time_now + 60)"
section \<open>Properties of the optimizer\<close>

lemmas priority_class_defs =
  IDLE_PRIORITY_CLASS_def BELOW_NORMAL_PRIORITY_CLASS_def NORMAL_PRIORITY_CLASS_def
  ABOVE_NORMAL_PRIORITY_CLASS_def HIGH_PRIORITY_CLASS_def REALTIME_PRIORITY_CLASS_def

text \<open>
  The test \<open>process.nice() < 32\<close> of \<open>calculate_boost\<close>, commented "High priority on
  Windows": no priority class that the optimizer sets on Windows passes it, and every
  nice value that it sets elsewhere does, the normal one included.
\<close>

lemma priority_test_on_windows: "list_all (\<lambda>(k, v). \<not> v < 32) priority_map"
  by (simp add: priority_map_def priority_class_defs)

lemma priority_test_elsewhere: "list_all (\<lambda>(k, v). v < 32) nice_map"
  by (simp add: nice_map_def)


text \<open>
  C10. When no optimization record exists, \<open>get_optimization_stats\<close> does not divide by
  zero: it returns (no exception) \<open>total_optimized = 0\<close>, \<open>total_boost = 0\<close>,
  \<open>average_boost = 0\<close> and an empty list of top processes, whatever the rest of the
  optimizer's state is.
\<close>

theorem get_optimization_stats_no_record:
  "optimized_processes self = [] \<Longrightarrow>
   get_optimization_stats self =
     Inr \<lparr>total_optimized = 0, average_boost = 0, total_boost = 0, top_processes = []\<rparr>"
  by (simp add: get_optimization_stats_def sorted_reverse_def)

theorem get_optimization_stats_no_record_witness:
  "optimized_processes (SystemOptimizer_init Linux []) = [] \<and>
   get_optimization_stats (SystemOptimizer_init Linux []) =
     Inr \<lparr>total_optimized = 0, average_boost = 0, total_boost = 0, top_processes = []\<rparr>"
proof -
  have h: "optimized_processes (SystemOptimizer_init Linux []) = []"
    by (simp add: SystemOptimizer_init_def)
  show ?thesis
    using h get_optimization_stats_no_record [OF h] by simp
qed

lemmas optimizer_eval_defs =
  optimize_process_def select_profile_def SystemOptimizer_init_def load_profiles_def
  default_profiles_def get_default_profile_def lower_def lower_char_def
  set_process_priority_def nice_map_def priority_map_def set_cpu_affinity_def
  affinity_cores_def enable_gpu_acceleration_def optimize_memory_def set_io_priority_def
  get_process_metrics_def str_of_nat.simps digit_char_def
  calculate_boost_def boost_factors_def metric_cpu_def py_int_def remove_optimization_def

lemmas number_defs =
  num_value_def to_float_def is_py_int_def num_sub_def num_mul_def float_quotient_def
  num_div_def py_max0_def py_sum_def num_to_int_def exact_arithmetic_def

lemmas example_defs =
  example_process_before_def example_os_before_def example_process_def example_os_def
  example_os_gone_def example_os_normal_def example_os_denied_def
  example_os_affinity_denied_def example_os_unreadable_def example_record_def
  example_optimizer_def

lemmas spec_boost_defs =
  spec_compute_boost_def spec_cpu_term_def above_normal_priority_def

subsection \<open>A second \<open>optimize_process\<close>\<close>

lemma set_process_priority_frame:
  "get_process_metrics (snd (set_process_priority plat process prio))
     = get_process_metrics process
   \<and> affinity_raises (snd (set_process_priority plat process prio)) = affinity_raises process
   \<and> gpu_call_ok (snd (set_process_priority plat process prio)) = gpu_call_ok process
   \<and> memory_call_ok (snd (set_process_priority plat process prio)) = memory_call_ok process
   \<and> io_call_ok (snd (set_process_priority plat process prio)) = io_call_ok process
   \<and> proc_cpu_affinity (snd (set_process_priority plat process prio))
       = proc_cpu_affinity process"
  by (simp add: set_process_priority_def get_process_metrics_def split: option.splits)

lemma set_cpu_affinity_frame:
  "get_process_metrics (snd (set_cpu_affinity n process t)) = get_process_metrics process
   \<and> gpu_call_ok (snd (set_cpu_affinity n process t)) = gpu_call_ok process
   \<and> memory_call_ok (snd (set_cpu_affinity n process t)) = memory_call_ok process
   \<and> io_call_ok (snd (set_cpu_affinity n process t)) = io_call_ok process
   \<and> proc_nice (snd (set_cpu_affinity n process t)) = proc_nice process"
  by (simp add: set_cpu_affinity_def get_process_metrics_def split: option.splits)

lemma set_process_priority_result:
  "fst (set_process_priority plat process prio)
     = (map_of (if plat = Windows then priority_map else nice_map) prio \<noteq> None
        \<and> nice_raises process = None)
   \<and> proc_nice (snd (set_process_priority plat process prio))
     = (if fst (set_process_priority plat process prio)
        then the (map_of (if plat = Windows then priority_map else nice_map) prio)
        else proc_nice process)"
  by (auto simp: set_process_priority_def split: option.splits)

lemma set_cpu_affinity_result:
  "fst (set_cpu_affinity n process t)
     = (affinity_cores n t \<noteq> None \<and> affinity_raises process = None)
   \<and> proc_cpu_affinity (snd (set_cpu_affinity n process t))
     = (if fst (set_cpu_affinity n process t) then the (affinity_cores n t)
        else proc_cpu_affinity process)"
  by (auto simp: set_cpu_affinity_def split: option.splits)

lemma applied_list:
  "(if a then [''priority''] else []) @ (if b then [''cpu_affinity''] else [])
     @ (if c then [''gpu_acceleration''] else [])
     @ (if d then [''memory_optimization''] else [])
     @ (if e then [''io_priority''] else [])
   = map fst (filter snd
       [(''priority'', a), (''cpu_affinity'', b), (''gpu_acceleration'', c),
        (''memory_optimization'', d), (''io_priority'', e)])"
  by simp

lemma optimize_process_alive:
  assumes "os_procs os p = Some process" and "name_raises process = None"
    and "prof = select_profile (optimization_profiles self) profile_name
                  (lower (proc_name process))"
    and "priority_result = set_process_priority (platform self) process (priority prof)"
    and "affinity_result =
           set_cpu_affinity (os_cpu_count os) (snd priority_result) (cpu_affinity prof)"
    and "applied = map fst (filter snd
           [(''priority'', fst priority_result),
            (''cpu_affinity'', fst affinity_result),
            (''gpu_acceleration'',
               gpu_acceleration prof \<and> platform self = Windows \<and> gpu_call_ok process),
            (''memory_optimization'',
               memory_optimization prof \<and> (platform self = Windows \<or> platform self = Linux)
               \<and> memory_call_ok process),
            (''io_priority'',
               (case disk_priority prof of
                  None \<Rightarrow> False
                | Some d \<Rightarrow>
                    (platform self = Windows
                       \<and> d \<in> set [''low'', ''normal'', ''high'', ''critical'']
                     \<or> platform self = Linux \<and> d \<in> set [''idle'', ''normal'', ''high''])
                    \<and> io_call_ok process))])"
    and "info = \<lparr>name = proc_name process, applied_profile = prof, timestamp = os_now os,
                 optimizations = applied, metrics_before = get_process_metrics process,
                 boost_percentage = 0\<rparr>"
  shows "optimize_process self os p profile_name =
           ((True, ''Applied '' @ str_of_nat (length applied) @ '' optimizations''),
            self\<lparr>optimized_processes := AList.update p info (optimized_processes self)\<rparr>,
            os\<lparr>os_procs := (os_procs os)(p \<mapsto> snd affinity_result)\<rparr>)"
proof -
  obtain ok1 process1 where
    p1: "set_process_priority (platform self) process (priority prof) = (ok1, process1)"
    by fastforce
  obtain ok2 process2 where
    p2: "set_cpu_affinity (os_cpu_count os) process1 (cpu_affinity prof) = (ok2, process2)"
    by fastforce
  have f1: "get_process_metrics process1 = get_process_metrics process"
    "gpu_call_ok process1 = gpu_call_ok process"
    "memory_call_ok process1 = memory_call_ok process"
    "io_call_ok process1 = io_call_ok process"
    using set_process_priority_frame[of "platform self" process "priority prof"] p1
    by simp_all
  have f2: "get_process_metrics process2 = get_process_metrics process1"
    "gpu_call_ok process2 = gpu_call_ok process1"
    "memory_call_ok process2 = memory_call_ok process1"
    "io_call_ok process2 = io_call_ok process1"
    using set_cpu_affinity_frame[of "os_cpu_count os" process1 "cpu_affinity prof"] p2
    by simp_all
  have gpu: "(gpu_acceleration prof \<and> platform self = Windows
               \<and> enable_gpu_acceleration (platform self) process2)
             = (gpu_acceleration prof \<and> platform self = Windows \<and> gpu_call_ok process)"
    by (auto simp: enable_gpu_acceleration_def f1 f2)
  have mem: "(memory_optimization prof \<and> optimize_memory (platform self) process2)
             = (memory_optimization prof \<and> (platform self = Windows \<or> platform self = Linux)
                \<and> memory_call_ok process)"
    by (auto simp: optimize_memory_def f1 f2)
  have io: "(case disk_priority prof of
               None \<Rightarrow> False
             | Some d \<Rightarrow> d \<noteq> [] \<and> set_io_priority (platform self) process2 d)
            = (case disk_priority prof of
                  None \<Rightarrow> False
                | Some d \<Rightarrow>
                    (platform self = Windows
                       \<and> d \<in> set [''low'', ''normal'', ''high'', ''critical'']
                     \<or> platform self = Linux \<and> d \<in> set [''idle'', ''normal'', ''high''])
                    \<and> io_call_ok process)"
    by (cases "disk_priority prof") (auto simp: set_io_priority_def f1 f2)
  have results: "priority_result = (ok1, process1)" "affinity_result = (ok2, process2)"
    using assms(4,5) p1 p2 by simp_all
  have run: "optimize_process self os p profile_name =
      ((True, ''Applied '' @ str_of_nat (length
           ((if ok1 then [''priority''] else []) @ (if ok2 then [''cpu_affinity''] else [])
            @ (if gpu_acceleration prof \<and> platform self = Windows
                  \<and> enable_gpu_acceleration (platform self) process2
               then [''gpu_acceleration''] else [])
            @ (if memory_optimization prof \<and> optimize_memory (platform self) process2
               then [''memory_optimization''] else [])
            @ (if (case disk_priority prof of
                     None \<Rightarrow> False
                   | Some d \<Rightarrow> d \<noteq> [] \<and> set_io_priority (platform self) process2 d)
               then [''io_priority''] else []))) @ '' optimizations''),
       self\<lparr>optimized_processes := AList.update p
          \<lparr>name = proc_name process, applied_profile = prof, timestamp = os_now os,
           optimizations =
             (if ok1 then [''priority''] else []) @ (if ok2 then [''cpu_affinity''] else [])
            @ (if gpu_acceleration prof \<and> platform self = Windows
                  \<and> enable_gpu_acceleration (platform self) process2
               then [''gpu_acceleration''] else [])
            @ (if memory_optimization prof \<and> optimize_memory (platform self) process2
               then [''memory_optimization''] else [])
            @ (if (case disk_priority prof of
                     None \<Rightarrow> False
                   | Some d \<Rightarrow> d \<noteq> [] \<and> set_io_priority (platform self) process2 d)
               then [''io_priority''] else []),
           metrics_before = get_process_metrics process2, boost_percentage = 0\<rparr>
          (optimized_processes self)\<rparr>,
       os\<lparr>os_procs := (os_procs os)(p \<mapsto> process2)\<rparr>)"
    unfolding optimize_process_def Let_def
    using assms(1,2) p1 p2 by (simp add: assms(3)[symmetric])
  show ?thesis
    unfolding run gpu mem io applied_list
    by (simp only: assms(6,7) results fst_conv snd_conv f1 f2)
qed

text \<open>
  C1 (as the code has it). \<open>optimize_process\<close> is not idempotent. For a pid that already
  has a record and whose process is alive and readable, a second call applies the actions
  again: the priority setter and then the affinity setter are run on the process, which
  is left as they leave it, and each of the five actions counts as applied exactly when
  it succeeds in this call. The stored record is replaced by a fresh one: the profile
  selected by this call, the actions applied by this call, the metrics and the time of
  this call, and a boost of 0. The call returns \<open>True\<close> with the count of the actions of
  this call. The table keeps its keys, so the pid still has exactly one record.
\<close>

theorem optimize_process_existing_record:
  assumes "map_of (optimized_processes self) p = Some old"
    and "os_procs os p = Some process"
    and "name_raises process = None"
    and "prof = select_profile (optimization_profiles self) profile_name
                  (lower (proc_name process))"
    and "priority_result = set_process_priority (platform self) process (priority prof)"
    and "affinity_result =
           set_cpu_affinity (os_cpu_count os) (snd priority_result) (cpu_affinity prof)"
    and "applied = map fst (filter snd
           [(''priority'', fst priority_result),
            (''cpu_affinity'', fst affinity_result),
            (''gpu_acceleration'',
               gpu_acceleration prof \<and> platform self = Windows \<and> gpu_call_ok process),
            (''memory_optimization'',
               memory_optimization prof \<and> (platform self = Windows \<or> platform self = Linux)
               \<and> memory_call_ok process),
            (''io_priority'',
               (case disk_priority prof of
                  None \<Rightarrow> False
                | Some d \<Rightarrow>
                    (platform self = Windows
                       \<and> d \<in> set [''low'', ''normal'', ''high'', ''critical'']
                     \<or> platform self = Linux \<and> d \<in> set [''idle'', ''normal'', ''high''])
                    \<and> io_call_ok process))])"
    and "info = \<lparr>name = proc_name process, applied_profile = prof, timestamp = os_now os,
                 optimizations = applied, metrics_before = get_process_metrics process,
                 boost_percentage = 0\<rparr>"
  shows "optimize_process self os p profile_name =
           ((True, ''Applied '' @ str_of_nat (length applied) @ '' optimizations''),
            self\<lparr>optimized_processes := AList.update p info (optimized_processes self)\<rparr>,
            os\<lparr>os_procs := (os_procs os)(p \<mapsto> snd affinity_result)\<rparr>)
       \<and> map_of (AList.update p info (optimized_processes self)) p = Some info
       \<and> map fst (AList.update p info (optimized_processes self))
           = map fst (optimized_processes self)
       \<and> fst priority_result
           = (map_of (if platform self = Windows then priority_map else nice_map)
                (priority prof) \<noteq> None
              \<and> nice_raises process = None)
       \<and> proc_nice (snd affinity_result)
           = (if fst priority_result
              then the (map_of (if platform self = Windows then priority_map else nice_map)
                          (priority prof))
              else proc_nice process)
       \<and> fst affinity_result
           = (affinity_cores (os_cpu_count os) (cpu_affinity prof) \<noteq> None
              \<and> affinity_raises process = None)
       \<and> proc_cpu_affinity (snd affinity_result)
           = (if fst affinity_result
              then the (affinity_cores (os_cpu_count os) (cpu_affinity prof))
              else proc_cpu_affinity process)"
proof -
  have run: "optimize_process self os p profile_name =
           ((True, ''Applied '' @ str_of_nat (length applied) @ '' optimizations''),
            self\<lparr>optimized_processes := AList.update p info (optimized_processes self)\<rparr>,
            os\<lparr>os_procs := (os_procs os)(p \<mapsto> snd affinity_result)\<rparr>)"
    by (rule optimize_process_alive[OF assms(2-8)])
  have key: "p \<in> fst ` set (optimized_processes self)"
    using assms(1) by (metis map_of_eq_None_iff option.distinct(1))
  have keys: "map fst (AList.update p info (optimized_processes self))
                = map fst (optimized_processes self)"
    using key by (simp add: update_keys)
  have stored: "map_of (AList.update p info (optimized_processes self)) p = Some info"
    by (simp add: update_conv')
  have pr: "fst priority_result
           = (map_of (if platform self = Windows then priority_map else nice_map)
                (priority prof) \<noteq> None
              \<and> nice_raises process = None)"
    "proc_nice (snd priority_result)
           = (if fst priority_result
              then the (map_of (if platform self = Windows then priority_map else nice_map)
                          (priority prof))
              else proc_nice process)"
    "affinity_raises (snd priority_result) = affinity_raises process"
    "proc_cpu_affinity (snd priority_result) = proc_cpu_affinity process"
    unfolding assms(5)
    using set_process_priority_result[of "platform self" process "priority prof"]
      set_process_priority_frame[of "platform self" process "priority prof"]
    by simp_all
  have ar: "fst affinity_result
           = (affinity_cores (os_cpu_count os) (cpu_affinity prof) \<noteq> None
              \<and> affinity_raises process = None)"
    "proc_cpu_affinity (snd affinity_result)
           = (if fst affinity_result
              then the (affinity_cores (os_cpu_count os) (cpu_affinity prof))
              else proc_cpu_affinity process)"
    "proc_nice (snd affinity_result) = proc_nice (snd priority_result)"
    unfolding assms(6)
    using set_cpu_affinity_result[of "os_cpu_count os" "snd priority_result" "cpu_affinity prof"]
      set_cpu_affinity_frame[of "os_cpu_count os" "snd priority_result" "cpu_affinity prof"]
    by (simp_all add: pr(3,4))
  show ?thesis
    using run stored keys pr(1) ar(1,2) by (simp add: ar(3) pr(2))
qed

theorem optimize_process_existing_record_witness:
  "map_of (optimized_processes example_optimizer) 100 = Some example_record
   \<and> os_procs example_os 100 = Some example_process
   \<and> name_raises example_process = None
   \<and> select_profile (optimization_profiles example_optimizer) None
        (lower (proc_name example_process)) = get_default_profile
   \<and> set_process_priority Linux example_process ''high'' = (True, example_process)
   \<and> set_cpu_affinity 4 example_process ''all'' = (True, example_process)
   \<and> optimize_process example_optimizer example_os 100 None =
        ((True, ''Applied 4 optimizations''),
         example_optimizer\<lparr>optimized_processes :=
           [(100, example_record\<lparr>timestamp := 2,
                    metrics_before := Some \<lparr>cpu_percent = 7, memory_mb = 1, num_threads = 4,
                                             io_counters = []\<rparr>\<rparr>)]\<rparr>,
         example_os)"
proof -
  have h1: "map_of (optimized_processes example_optimizer) 100 = Some example_record"
    by (simp add: example_defs)
  have h2: "os_procs example_os 100 = Some example_process"
    by (simp add: example_defs)
  have h3: "name_raises example_process = None"
    by (simp add: example_defs)
  have prof: "select_profile (optimization_profiles example_optimizer) None
        (lower (proc_name example_process)) = get_default_profile"
    by (simp add: optimizer_eval_defs example_defs)
  have pr: "set_process_priority Linux example_process ''high'' = (True, example_process)"
    by (simp add: optimizer_eval_defs example_defs)
  have ar: "set_cpu_affinity 4 example_process ''all'' = (True, example_process)"
    by (simp add: optimizer_eval_defs example_defs)
  have plat: "platform example_optimizer = Linux" "os_cpu_count example_os = 4"
    "priority get_default_profile = ''high''" "cpu_affinity get_default_profile = ''all''"
    by (simp_all add: optimizer_eval_defs example_defs)
  note inst = optimize_process_existing_record [OF h1 h2 h3 refl refl refl refl refl,
      of None]
  have run: "optimize_process example_optimizer example_os 100 None =
        ((True, ''Applied 4 optimizations''),
         example_optimizer\<lparr>optimized_processes :=
           [(100, example_record\<lparr>timestamp := 2,
                    metrics_before := Some \<lparr>cpu_percent = 7, memory_mb = 1, num_threads = 4,
                                             io_counters = []\<rparr>\<rparr>)]\<rparr>,
         example_os)"
    apply (subst inst [THEN conjunct1])
    apply (simp only: prof pr ar plat fst_conv snd_conv)
    apply (simp add: optimizer_eval_defs example_defs fun_upd_idem_iff)
    done
  show ?thesis
    using h1 h2 h3 prof pr ar run by blast
qed

text \<open>
  The example record is what the first call stores.
\<close>

lemma example_optimizer_reachable:
  "fst (optimize_process (SystemOptimizer_init Linux []) example_os_before 100 None)
     = (True, ''Applied 4 optimizations'')
   \<and> fst (snd (optimize_process (SystemOptimizer_init Linux []) example_os_before 100 None))
     = example_optimizer
   \<and> os_procs (snd (snd (optimize_process (SystemOptimizer_init Linux [])
                            example_os_before 100 None))) 100
     = Some (example_process\<lparr>proc_cpu_percent := 8\<rparr>)"
  apply (simp add: optimizer_eval_defs example_defs)
  apply (simp add: Let_def)
  done

text \<open>
  C1 as stated fails: pid 100 has the record stored at time 1 (metrics at 8 percent of
  CPU), with a boost of 142 computed at time 2; a second \<open>optimize_process(100)\<close> at
  time 2 returns the summary of a new application and leaves a different record (time 2,
  metrics at 7 percent of CPU, boost 0).
\<close>

theorem optimize_process_twice_counterexample:
  "map (\<lambda>(p, info). (p, timestamp info, map_option cpu_percent (metrics_before info),
                        boost_percentage info))
     (optimized_processes (snd (calculate_boost exact_arithmetic example_optimizer example_os 100)))
     = [(100, 1, Some 8, 142)]
   \<and> fst (optimize_process
             (snd (calculate_boost exact_arithmetic example_optimizer example_os 100))
             example_os 100 None)
       = (True, ''Applied 4 optimizations'')
   \<and> map (\<lambda>(p, info). (p, timestamp info, map_option cpu_percent (metrics_before info),
                        boost_percentage info))
        (optimized_processes
           (fst (snd (optimize_process
                        (snd (calculate_boost exact_arithmetic example_optimizer example_os 100))
                        example_os 100 None))))
       = [(100, 2, Some 7, 0)]"
  apply (simp add: optimizer_eval_defs number_defs example_defs)
  apply (simp add: Let_def)
  done


subsection \<open>The boost score\<close>

lemma boost_factors_eq:
  "boost_factors fa info process nice_value =
     Inr (cpu_improvement_factor fa (metric_cpu (metrics_before info))
            (metric_cpu (get_process_metrics process))
          @ [PyInt (25 * int (length (optimizations info)))]
          @ (if nice_value < 32 then [PyInt 30] else []))"
  by (simp add: boost_factors_def cpu_improvement_factor_def num_div_def Let_def
        mult.commute)

lemma to_float_nonneg:
  assumes "\<forall>x. 0 \<le> x \<longrightarrow> 0 \<le> round_nearest fa x" and "0 \<le> num_value a"
  shows "0 \<le> to_float fa a"
  using assms by (cases a) (simp_all add: to_float_def num_value_def)

lemma py_sum_nonneg:
  assumes rn: "\<forall>x. 0 \<le> x \<longrightarrow> 0 \<le> round_nearest fa x"
    and fs: "\<forall>ys. (\<forall>y \<in> set ys. 0 \<le> y) \<longrightarrow> 0 \<le> float_sum fa ys"
    and xs: "\<forall>a \<in> set xs. 0 \<le> num_value a"
  shows "0 \<le> num_to_int (py_sum fa xs)"
proof -
  let ?ints = "takeWhile is_py_int xs"
  let ?rest = "dropWhile is_py_int xs"
  let ?total = "sum_list (map (\<lambda>a. case a of PyInt i \<Rightarrow> i | PyFloat x \<Rightarrow> 0) ?ints)"
  have "\<And>a. a \<in> set ?ints \<Longrightarrow> 0 \<le> (case a of PyInt i \<Rightarrow> i | PyFloat x \<Rightarrow> 0)"
  proof -
    fix a assume "a \<in> set ?ints"
    then have "a \<in> set xs" by (rule set_takeWhileD[THEN conjunct1])
    with xs have "0 \<le> num_value a" by blast
    then show "0 \<le> (case a of PyInt i \<Rightarrow> i | PyFloat x \<Rightarrow> 0)"
      by (cases a) (simp_all add: num_value_def)
  qed
  then have total: "0 \<le> ?total"
    by (intro sum_list_nonneg) auto
  show ?thesis
  proof (cases "?rest = []")
    case True
    then show ?thesis
      using total by (simp add: py_sum_def num_to_int_def Let_def
          del: dropWhile_eq_Nil_conv)
  next
    case False
    have "\<And>a. a \<in> set ?rest \<Longrightarrow> 0 \<le> to_float fa a"
    proof -
      fix a assume "a \<in> set ?rest"
      then have "a \<in> set xs" by (rule set_dropWhileD)
      with xs have "0 \<le> num_value a" by blast
      then show "0 \<le> to_float fa a" by (rule to_float_nonneg[OF rn])
    qed
    moreover have "0 \<le> round_nearest fa (of_int ?total)"
      using rn total by simp
    ultimately have
      "\<forall>y \<in> set (round_nearest fa (of_int ?total) # map (to_float fa) ?rest). 0 \<le> y"
      by auto
    with fs have
      "0 \<le> float_sum fa (round_nearest fa (of_int ?total) # map (to_float fa) ?rest)"
      by blast
    then show ?thesis
      using False by (simp add: py_sum_def num_to_int_def py_int_def Let_def
          del: dropWhile_eq_Nil_conv)
  qed
qed

lemma factors_nonneg:
  "\<forall>a \<in> set (cpu_improvement_factor fa b c @ [PyInt (25 * int n)] @ prio).
      0 \<le> num_value a"
  if "prio \<in> {[], [PyInt 30]}"
  using that by (auto simp: cpu_improvement_factor_def py_max0_def num_value_def)

text \<open>
  C5 (as the code has it). For a pid with a record: when the process is gone, or when
  reading its priority raises, \<open>calculate_boost\<close> returns the stored percentage and
  writes nothing. Otherwise it returns \<open>min(int(s), 999)\<close> where \<open>s\<close> is Python's sum of
  the CPU-improvement term (\<open>max(0, (cpu_before - cpu_now) / cpu_before * 100)\<close> in float
  arithmetic, present only if \<open>cpu_before > 0\<close>), 25 per applied action and a priority
  term that is absent or 30; the sum is truncated to an integer, the result is at most
  999 and, float arithmetic keeping non-negative numbers non-negative, at least 0; and
  the record's \<open>boost_percentage\<close> is set to it, the table keeping its keys.
\<close>

theorem calculate_boost_amended:
  assumes "map_of (optimized_processes self) p = Some info"
  shows "(os_procs os p = None \<longrightarrow>
            calculate_boost fa self os p = (boost_percentage info, self))
       \<and> (\<forall>process. os_procs os p = Some process \<and> nice_getter_raises process \<noteq> None \<longrightarrow>
            calculate_boost fa self os p = (boost_percentage info, self))
       \<and> (\<forall>process. os_procs os p = Some process \<and> nice_getter_raises process = None \<longrightarrow>
            (\<exists>prio \<in> {[], [PyInt 30]}. \<exists>total.
               total = min (num_to_int (py_sum fa
                         (cpu_improvement_factor fa (metric_cpu (metrics_before info))
                            (metric_cpu (get_process_metrics process))
                          @ [PyInt (25 * int (length (optimizations info)))]
                          @ prio))) 999
             \<and> total \<le> 999
             \<and> ((\<forall>x. 0 \<le> x \<longrightarrow> 0 \<le> round_nearest fa x)
                  \<and> (\<forall>ys. (\<forall>y \<in> set ys. 0 \<le> y) \<longrightarrow> 0 \<le> float_sum fa ys)
                \<longrightarrow> 0 \<le> total)
             \<and> fst (calculate_boost fa self os p) = total
             \<and> map_of (optimized_processes (snd (calculate_boost fa self os p))) p
                 = Some (info\<lparr>boost_percentage := total\<rparr>)
             \<and> map fst (optimized_processes (snd (calculate_boost fa self os p)))
                 = map fst (optimized_processes self)))"
proof (intro conjI allI impI)
  assume "os_procs os p = None"
  then show "calculate_boost fa self os p = (boost_percentage info, self)"
    using assms by (simp add: calculate_boost_def)
next
  fix process
  assume "os_procs os p = Some process \<and> nice_getter_raises process \<noteq> None"
  then show "calculate_boost fa self os p = (boost_percentage info, self)"
    using assms by (auto simp: calculate_boost_def)
next
  fix process
  assume alive: "os_procs os p = Some process \<and> nice_getter_raises process = None"
  define prio where "prio = (if proc_nice process < 32 then [PyInt 30] else [])"
  define factors where
    "factors = cpu_improvement_factor fa (metric_cpu (metrics_before info))
                  (metric_cpu (get_process_metrics process))
               @ [PyInt (25 * int (length (optimizations info)))] @ prio"
  define total where "total = min (num_to_int (py_sum fa factors)) 999"
  have prio: "prio \<in> {[], [PyInt 30]}"
    by (simp add: prio_def)
  have bf: "boost_factors fa info process (proc_nice process) = Inr factors"
    by (simp add: boost_factors_eq factors_def prio_def)
  have key: "p \<in> fst ` set (optimized_processes self)"
    using assms by (metis map_of_eq_None_iff option.distinct(1))
  have run: "calculate_boost fa self os p =
      (total, self\<lparr>optimized_processes :=
                AList.update p (info\<lparr>boost_percentage := total\<rparr>) (optimized_processes self)\<rparr>)"
    using assms alive by (simp add: calculate_boost_def bf Let_def total_def)
  have low: "(\<forall>x. 0 \<le> x \<longrightarrow> 0 \<le> round_nearest fa x)
                  \<and> (\<forall>ys. (\<forall>y \<in> set ys. 0 \<le> y) \<longrightarrow> 0 \<le> float_sum fa ys)
                \<longrightarrow> 0 \<le> total"
  proof
    assume a: "(\<forall>x. 0 \<le> x \<longrightarrow> 0 \<le> round_nearest fa x)
                  \<and> (\<forall>ys. (\<forall>y \<in> set ys. 0 \<le> y) \<longrightarrow> 0 \<le> float_sum fa ys)"
    have "0 \<le> num_to_int (py_sum fa factors)"
      unfolding factors_def
      by (rule py_sum_nonneg[OF a[THEN conjunct1] a[THEN conjunct2] factors_nonneg[OF prio]])
    then show "0 \<le> total" by (simp add: total_def)
  qed
  have "total = min (num_to_int (py_sum fa
                         (cpu_improvement_factor fa (metric_cpu (metrics_before info))
                            (metric_cpu (get_process_metrics process))
                          @ [PyInt (25 * int (length (optimizations info)))]
                          @ prio))) 999
             \<and> total \<le> 999
             \<and> ((\<forall>x. 0 \<le> x \<longrightarrow> 0 \<le> round_nearest fa x)
                  \<and> (\<forall>ys. (\<forall>y \<in> set ys. 0 \<le> y) \<longrightarrow> 0 \<le> float_sum fa ys)
                \<longrightarrow> 0 \<le> total)
             \<and> fst (calculate_boost fa self os p) = total
             \<and> map_of (optimized_processes (snd (calculate_boost fa self os p))) p
                 = Some (info\<lparr>boost_percentage := total\<rparr>)
             \<and> map fst (optimized_processes (snd (calculate_boost fa self os p)))
                 = map fst (optimized_processes self)"
    using low key by (simp add: run update_conv' update_keys) (simp add: total_def factors_def)
  then show "\<exists>prio \<in> {[], [PyInt 30]}. \<exists>total.
               total = min (num_to_int (py_sum fa
                         (cpu_improvement_factor fa (metric_cpu (metrics_before info))
                            (metric_cpu (get_process_metrics process))
                          @ [PyInt (25 * int (length (optimizations info)))]
                          @ prio))) 999
             \<and> total \<le> 999
             \<and> ((\<forall>x. 0 \<le> x \<longrightarrow> 0 \<le> round_nearest fa x)
                  \<and> (\<forall>ys. (\<forall>y \<in> set ys. 0 \<le> y) \<longrightarrow> 0 \<le> float_sum fa ys)
                \<longrightarrow> 0 \<le> total)
             \<and> fst (calculate_boost fa self os p) = total
             \<and> map_of (optimized_processes (snd (calculate_boost fa self os p))) p
                 = Some (info\<lparr>boost_percentage := total\<rparr>)
             \<and> map fst (optimized_processes (snd (calculate_boost fa self os p)))
                 = map fst (optimized_processes self)"
    using prio by blast
qed

text \<open>
  C5 as stated fails on the record of pid 100 (CPU 8 percent before, four actions,
  stored boost 0). With the process gone the call returns the stored 0, below the 100 of
  the four actions alone, and leaves the record as it is; so it does when the priority
  of the live process cannot be read. With the process at 7 percent of CPU and nice -10
  (above normal) the score of the claim is 142.5 and the call returns 142. With the
  process at nice 0 (the normal tier) the score of the claim is 112.5 and the call
  returns 142. No float operation of these examples rounds.
\<close>

theorem calculate_boost_counterexample:
  "map_of (optimized_processes example_optimizer) 100 = Some example_record
   \<and> calculate_boost exact_arithmetic example_optimizer example_os_gone 100
       = (0, example_optimizer)
   \<and> calculate_boost exact_arithmetic example_optimizer example_os_unreadable 100
       = (0, example_optimizer)
   \<and> 25 * int (length (optimizations example_record)) = 100
   \<and> fst (calculate_boost exact_arithmetic example_optimizer example_os 100) = 142
   \<and> spec_compute_boost 8 7 4 (above_normal_priority Linux (- 10)) = 285 / 2
   \<and> fst (calculate_boost exact_arithmetic example_optimizer example_os_normal 100) = 142
   \<and> spec_compute_boost 8 7 4 (above_normal_priority Linux 0) = 225 / 2"
  by (simp add: optimizer_eval_defs number_defs example_defs spec_boost_defs Let_def)

theorem calculate_boost_amended_witness:
  "map_of (optimized_processes example_optimizer) 100 = Some example_record
   \<and> os_procs example_os_gone 100 = None
   \<and> calculate_boost exact_arithmetic example_optimizer example_os_gone 100
        = (boost_percentage example_record, example_optimizer)
   \<and> os_procs example_os_unreadable 100
        = Some (example_process\<lparr>nice_getter_raises := Some AccessDenied\<rparr>)
   \<and> calculate_boost exact_arithmetic example_optimizer example_os_unreadable 100
        = (boost_percentage example_record, example_optimizer)
   \<and> os_procs example_os 100 = Some example_process
   \<and> nice_getter_raises example_process = None
   \<and> 0 \<le> fst (calculate_boost exact_arithmetic example_optimizer example_os 100)
   \<and> fst (calculate_boost exact_arithmetic example_optimizer example_os 100) \<le> 999
   \<and> map_of (optimized_processes
               (snd (calculate_boost exact_arithmetic example_optimizer example_os 100))) 100
       = Some (example_record\<lparr>boost_percentage :=
                 fst (calculate_boost exact_arithmetic example_optimizer example_os 100)\<rparr>)"
proof -
  have h: "map_of (optimized_processes example_optimizer) 100 = Some example_record"
    by (simp add: example_defs)
  have gone: "os_procs example_os_gone 100 = None"
    by (simp add: example_defs)
  have unreadable: "os_procs example_os_unreadable 100
        = Some (example_process\<lparr>nice_getter_raises := Some AccessDenied\<rparr>)
      \<and> nice_getter_raises (example_process\<lparr>nice_getter_raises := Some AccessDenied\<rparr>) \<noteq> None"
    by (simp add: example_defs)
  have alive: "os_procs example_os 100 = Some example_process
      \<and> nice_getter_raises example_process = None"
    by (simp add: example_defs)
  have rn: "\<forall>x. 0 \<le> x \<longrightarrow> 0 \<le> round_nearest exact_arithmetic x"
    by (simp add: exact_arithmetic_def)
  have fs: "\<forall>ys. (\<forall>y \<in> set ys. 0 \<le> y) \<longrightarrow> 0 \<le> float_sum exact_arithmetic ys"
    by (simp add: exact_arithmetic_def sum_list_nonneg)
  note inst = calculate_boost_amended [OF h, of _ exact_arithmetic]
  have c1: "calculate_boost exact_arithmetic example_optimizer example_os_gone 100
        = (boost_percentage example_record, example_optimizer)"
    using inst[of example_os_gone] gone by blast
  have c2: "calculate_boost exact_arithmetic example_optimizer example_os_unreadable 100
        = (boost_percentage example_record, example_optimizer)"
    using inst[of example_os_unreadable] unreadable by blast
  note third = inst[of example_os, THEN conjunct2, THEN conjunct2, rule_format, OF alive]
  from third obtain prio total where
    t: "total \<le> 999"
      "(\<forall>x. 0 \<le> x \<longrightarrow> 0 \<le> round_nearest exact_arithmetic x)
         \<and> (\<forall>ys. (\<forall>y \<in> set ys. 0 \<le> y) \<longrightarrow> 0 \<le> float_sum exact_arithmetic ys)
       \<longrightarrow> 0 \<le> total"
      "fst (calculate_boost exact_arithmetic example_optimizer example_os 100) = total"
      "map_of (optimized_processes
               (snd (calculate_boost exact_arithmetic example_optimizer example_os 100))) 100
         = Some (example_record\<lparr>boost_percentage := total\<rparr>)"
    by blast
  have "0 \<le> total"
    using t(2) rn fs by blast
  then have c3: "0 \<le> fst (calculate_boost exact_arithmetic example_optimizer example_os 100)
   \<and> fst (calculate_boost exact_arithmetic example_optimizer example_os 100) \<le> 999
   \<and> map_of (optimized_processes
               (snd (calculate_boost exact_arithmetic example_optimizer example_os 100))) 100
       = Some (example_record\<lparr>boost_percentage :=
                 fst (calculate_boost exact_arithmetic example_optimizer example_os 100)\<rparr>)"
    using t(1,3,4) by simp
  show ?thesis
    using h gone unreadable alive c1 c2 c3 by blast
qed

subsection \<open>Removing an optimization\<close>

text \<open>
  C8 (as the code has it). On an existing process whose priority and affinity setters
  succeed, \<open>remove_optimization\<close> resets the priority to the normal tier and the affinity
  to all cores, deletes the record of the pid (no record remains; the other records are
  untouched) and returns \<open>True\<close>. When the process is gone it returns \<open>False\<close> without
  raising and changes nothing: the record of the pid, if any, stays. When the priority
  setter is refused it returns \<open>False\<close> and changes nothing; when the affinity setter is
  refused it returns \<open>False\<close> with the priority reset, and the optimizer, the record of
  the pid included, is as it was.
\<close>

theorem remove_optimization_amended:
  "(\<forall>process. os_procs os p = Some process \<and> nice_raises process = None
        \<and> affinity_raises process = None \<longrightarrow>
      (case remove_optimization self os p of
         (ok, self', os') \<Rightarrow>
           ok
         \<and> map_of (optimized_processes self') p = None
         \<and> p \<notin> fst ` set (optimized_processes self')
         \<and> (\<forall>q. q \<noteq> p \<longrightarrow>
               map_of (optimized_processes self') q = map_of (optimized_processes self) q)
         \<and> os_procs os' p =
             Some (process\<lparr>proc_nice :=
                       (if platform self = Windows then NORMAL_PRIORITY_CLASS else 0),
                     proc_cpu_affinity := [0..<os_cpu_count os]\<rparr>)))
   \<and> (os_procs os p = None \<longrightarrow> remove_optimization self os p = (False, self, os))
   \<and> (\<forall>process. os_procs os p = Some process \<and> nice_raises process \<noteq> None \<longrightarrow>
        remove_optimization self os p = (False, self, os))
   \<and> (\<forall>process. os_procs os p = Some process \<and> nice_raises process = None
        \<and> affinity_raises process \<noteq> None \<longrightarrow>
        remove_optimization self os p =
          (False, self,
           os\<lparr>os_procs := (os_procs os)(p \<mapsto>
                 process\<lparr>proc_nice :=
                   (if platform self = Windows then NORMAL_PRIORITY_CLASS else 0)\<rparr>)\<rparr>))"
proof (intro conjI allI impI)
  fix process
  assume a: "os_procs os p = Some process \<and> nice_raises process = None
        \<and> affinity_raises process = None"
  have run: "remove_optimization self os p =
      (True, self\<lparr>optimized_processes := AList.delete p (optimized_processes self)\<rparr>,
       os\<lparr>os_procs := (os_procs os)(p \<mapsto>
             process\<lparr>proc_nice :=
                       (if platform self = Windows then NORMAL_PRIORITY_CLASS else 0),
                     proc_cpu_affinity := [0..<os_cpu_count os]\<rparr>)\<rparr>)"
    using a by (simp add: remove_optimization_def Let_def)
  have gone: "map_of (AList.delete p (optimized_processes self)) p = None"
    by (simp add: delete_conv')
  have notin: "p \<notin> fst ` set (AList.delete p (optimized_processes self))"
    using gone by (simp add: map_of_eq_None_iff)
  have others: "\<forall>q. q \<noteq> p \<longrightarrow>
      map_of (AList.delete p (optimized_processes self)) q = map_of (optimized_processes self) q"
    by (simp add: delete_conv')
  show "case remove_optimization self os p of
         (ok, self', os') \<Rightarrow>
           ok
         \<and> map_of (optimized_processes self') p = None
         \<and> p \<notin> fst ` set (optimized_processes self')
         \<and> (\<forall>q. q \<noteq> p \<longrightarrow>
               map_of (optimized_processes self') q = map_of (optimized_processes self) q)
         \<and> os_procs os' p =
             Some (process\<lparr>proc_nice :=
                       (if platform self = Windows then NORMAL_PRIORITY_CLASS else 0),
                     proc_cpu_affinity := [0..<os_cpu_count os]\<rparr>)"
    unfolding run using gone notin others by simp
next
  assume "os_procs os p = None"
  then show "remove_optimization self os p = (False, self, os)"
    by (simp add: remove_optimization_def)
next
  fix process
  assume "os_procs os p = Some process \<and> nice_raises process \<noteq> None"
  then show "remove_optimization self os p = (False, self, os)"
    by (auto simp: remove_optimization_def)
next
  fix process
  assume "os_procs os p = Some process \<and> nice_raises process = None
        \<and> affinity_raises process \<noteq> None"
  then show "remove_optimization self os p =
          (False, self,
           os\<lparr>os_procs := (os_procs os)(p \<mapsto>
                 process\<lparr>proc_nice :=
                   (if platform self = Windows then NORMAL_PRIORITY_CLASS else 0)\<rparr>)\<rparr>)"
    by (auto simp: remove_optimization_def Let_def)
qed

theorem remove_optimization_amended_witness:
  "os_procs example_os 100 = Some example_process
   \<and> nice_raises example_process = None \<and> affinity_raises example_process = None
   \<and> fst (remove_optimization example_optimizer example_os 100)
   \<and> map_of (optimized_processes (fst (snd (remove_optimization example_optimizer example_os 100)))) 100
       = None
   \<and> os_procs example_os_gone 100 = None
   \<and> remove_optimization example_optimizer example_os_gone 100
       = (False, example_optimizer, example_os_gone)
   \<and> os_procs example_os_denied 100
       = Some (example_process\<lparr>nice_raises := Some AccessDenied\<rparr>)
   \<and> remove_optimization example_optimizer example_os_denied 100
       = (False, example_optimizer, example_os_denied)
   \<and> os_procs example_os_affinity_denied 100
       = Some (example_process\<lparr>affinity_raises := Some AccessDenied\<rparr>)
   \<and> fst (remove_optimization example_optimizer example_os_affinity_denied 100) = False
   \<and> fst (snd (remove_optimization example_optimizer example_os_affinity_denied 100))
       = example_optimizer
   \<and> map_option proc_nice
        (os_procs (snd (snd (remove_optimization example_optimizer
                               example_os_affinity_denied 100))) 100) = Some 0"
proof -
  have h1: "os_procs example_os 100 = Some example_process"
    by (simp add: example_defs)
  have h2: "nice_raises example_process = None \<and> affinity_raises example_process = None"
    by (simp add: example_defs)
  have h3: "os_procs example_os_gone 100 = None"
    by (simp add: example_defs)
  have h4: "os_procs example_os_denied 100
       = Some (example_process\<lparr>nice_raises := Some AccessDenied\<rparr>)
     \<and> nice_raises (example_process\<lparr>nice_raises := Some AccessDenied\<rparr>) \<noteq> None"
    by (simp add: example_defs)
  have h5: "os_procs example_os_affinity_denied 100
       = Some (example_process\<lparr>affinity_raises := Some AccessDenied\<rparr>)
     \<and> nice_raises (example_process\<lparr>affinity_raises := Some AccessDenied\<rparr>) = None
     \<and> affinity_raises (example_process\<lparr>affinity_raises := Some AccessDenied\<rparr>) \<noteq> None"
    by (simp add: example_defs)
  have plat: "platform example_optimizer \<noteq> Windows"
    by (simp add: example_defs SystemOptimizer_init_def)
  note inst = remove_optimization_amended [where self = example_optimizer and p = 100]
  have c1: "fst (remove_optimization example_optimizer example_os 100)
     \<and> map_of (optimized_processes (fst (snd (remove_optimization example_optimizer example_os 100)))) 100
       = None"
    using inst [of example_os, THEN conjunct1, rule_format, of example_process] h1 h2
    by (simp add: split_beta)
  have c2: "remove_optimization example_optimizer example_os_gone 100
       = (False, example_optimizer, example_os_gone)"
    using inst [of example_os_gone, THEN conjunct2, THEN conjunct1] h3 by simp
  have c3: "remove_optimization example_optimizer example_os_denied 100
       = (False, example_optimizer, example_os_denied)"
    using inst [of example_os_denied, THEN conjunct2, THEN conjunct2, THEN conjunct1,
        rule_format, OF h4] .
  have c4: "remove_optimization example_optimizer example_os_affinity_denied 100
       = (False, example_optimizer,
          example_os_affinity_denied\<lparr>os_procs := (os_procs example_os_affinity_denied)(100 \<mapsto>
             example_process\<lparr>affinity_raises := Some AccessDenied,
               proc_nice := (if platform example_optimizer = Windows
                             then NORMAL_PRIORITY_CLASS else 0)\<rparr>)\<rparr>)"
    using inst [of example_os_affinity_denied, THEN conjunct2, THEN conjunct2,
        THEN conjunct2, rule_format, OF h5] .
  show ?thesis
    using h1 h2 h3 h4 h5 c1 c2 c3 by (simp add: c4 plat)
qed

text \<open>
  C8 as stated fails: pid 100 has a record; with the process gone the call returns
  \<open>False\<close> and the optimizer still holds the record; with the process alive and its
  priority setter refused the call returns \<open>False\<close> as well and the record stays.
\<close>

theorem remove_optimization_counterexample:
  "map_of (optimized_processes example_optimizer) 100 = Some example_record
   \<and> os_procs example_os_gone 100 = None
   \<and> remove_optimization example_optimizer example_os_gone 100
       = (False, example_optimizer, example_os_gone)
   \<and> os_procs example_os_denied 100 = Some (example_process\<lparr>nice_raises := Some AccessDenied\<rparr>)
   \<and> remove_optimization example_optimizer example_os_denied 100
       = (False, example_optimizer, example_os_denied)"
  by (simp add: optimizer_eval_defs example_defs)


section \<open>Properties of the game detector\<close>

lemmas detector_eval_defs =
  detect_games_def GameDetector_init_def load_game_database_def default_games_def
  game_indicators_def check_gpu_usage_def lower_def lower_char_def example_snapshot_def
  no_gpu_def busy_gpu_def

lemma detect_loop_Cons:
  "detect_loop self gpu i (process # rest) =
     (case first_matching_rule (known_games self) (gpu i) process of
        None \<Rightarrow> detect_loop self gpu (Suc i) rest
      | Some rule \<Rightarrow>
          (case detect_loop
                  (self\<lparr>gaming_processes :=
                          List.insert (info_pid process) (gaming_processes self)\<rparr>)
                  gpu (Suc i) rest of
             (detected, self'') \<Rightarrow>
               (rule_entry (known_games self) process rule # detected, self'')))"
proof (cases "map_of (known_games self) (lower (info_name process))")
  case (Some row)
  then show ?thesis
    by (simp add: first_matching_rule_def rule_entry_def rule_label_def Let_def)
next
  case None
  show ?thesis
  proof (cases "list_ex (\<lambda>indicator. str_in indicator (lower (info_name process)))
                  game_indicators")
    case True
    with None show ?thesis
      by (simp add: first_matching_rule_def rule_entry_def rule_label_def Let_def)
  next
    case False
    with None show ?thesis
      by (cases "check_gpu_usage (gpu i)")
        (simp_all add: first_matching_rule_def rule_entry_def rule_label_def Let_def)
  qed
qed


lemma detect_loop_frame:
  "detect_loop self gpu i processes = (detected, self') \<Longrightarrow>
     known_games self' = known_games self
   \<and> game_mode_active self' = game_mode_active self
   \<and> original_settings self' = original_settings self
   \<and> set (gaming_processes self') = set (gaming_processes self) \<union> game_pid ` set detected"
proof (induction processes arbitrary: self i detected self')
  case Nil
  then show ?case by simp
next
  case (Cons process rest)
  show ?case
  proof (cases "first_matching_rule (known_games self) (gpu i) process")
    case None
    with Cons.prems have "detect_loop self gpu (Suc i) rest = (detected, self')"
      by (simp only: detect_loop_Cons option.case)
    from Cons.IH[OF this] show ?thesis .
  next
    case (Some rule)
    let ?self1 = "self\<lparr>gaming_processes :=
                     List.insert (info_pid process) (gaming_processes self)\<rparr>"
    obtain ds s2 where rec: "detect_loop ?self1 gpu (Suc i) rest = (ds, s2)"
      by fastforce
    with Some Cons.prems have
      res: "detected = rule_entry (known_games self) process rule # ds" "self' = s2"
      by (simp_all only: detect_loop_Cons option.case prod.case prod.inject)
    have pid: "game_pid (rule_entry (known_games self) process rule) = info_pid process"
      by (simp add: rule_entry_def)
    from Cons.IH[OF rec] show ?thesis
      unfolding res by (auto simp: pid)
  qed
qed


text \<open>
  C3 (as the code has it). \<open>detect_games\<close> returns its detected list and leaves the
  known-games table, the game-mode flag and the stored settings as they were, but it
  does write to the detector: the pid of every detected entry is added to the tracked
  set \<open>gaming_processes\<close>, which afterwards holds exactly the pids tracked before and
  the pids detected.
\<close>

theorem detect_games_effects:
  "(case detect_games self gpu processes of
      (detected, self') \<Rightarrow>
        known_games self' = known_games self
      \<and> game_mode_active self' = game_mode_active self
      \<and> original_settings self' = original_settings self
      \<and> set (gaming_processes self')
           = set (gaming_processes self) \<union> game_pid ` set detected)"
proof -
  obtain detected self' where run: "detect_loop self gpu 0 processes = (detected, self')"
    by fastforce
  from detect_loop_frame[OF run] show ?thesis
    by (simp add: detect_games_def run)
qed


text \<open>
  C3 as stated fails: on a fresh detector, whose tracked set is empty, detecting on a
  snapshot list with \<open>csgo.exe\<close> as pid 7 leaves pid 7 in the tracked set.
\<close>

theorem detect_games_mutates_counterexample:
  "gaming_processes (GameDetector_init []) = []
   \<and> map game_pid (fst (detect_games (GameDetector_init []) no_gpu
                          [example_snapshot 7 ''csgo.exe''])) = [7]
   \<and> gaming_processes (snd (detect_games (GameDetector_init []) no_gpu
                          [example_snapshot 7 ''csgo.exe''])) = [7]"
  by (simp add: detector_eval_defs Let_def)



lemma detect_loop_map_filter:
  "fst (detect_loop self gpu i processes) =
     List.map_filter
       (\<lambda>(j, process). map_option (rule_entry (known_games self) process)
                          (first_matching_rule (known_games self) (gpu j) process))
       (enumerate i processes)"
proof (induction processes arbitrary: self i)
  case Nil
  then show ?case by (simp add: map_filter_simps)
next
  case (Cons process rest)
  let ?self1 = "self\<lparr>gaming_processes :=
                   List.insert (info_pid process) (gaming_processes self)\<rparr>"
  have known: "known_games ?self1 = known_games self" by simp
  show ?case
  proof (cases "first_matching_rule (known_games self) (gpu i) process")
    case None
    then show ?thesis
      using Cons.IH[of self "Suc i"]
      by (simp add: detect_loop_Cons map_filter_simps del: detect_loop.simps)
  next
    case (Some rule)
    then show ?thesis
      using Cons.IH[of ?self1 "Suc i"] known
      by (simp add: detect_loop_Cons map_filter_simps split_beta
            del: detect_loop.simps)
  qed
qed

lemma detect_loop_pids_subset:
  "game_pid ` set (fst (detect_loop self gpu i processes)) \<subseteq> info_pid ` set processes"
proof (induction processes arbitrary: self i)
  case Nil
  then show ?case by simp
next
  case (Cons process rest)
  let ?self1 = "self\<lparr>gaming_processes :=
                   List.insert (info_pid process) (gaming_processes self)\<rparr>"
  show ?case
  proof (cases "first_matching_rule (known_games self) (gpu i) process")
    case None
    then show ?thesis
      using Cons.IH[of self "Suc i"]
      by (auto simp add: detect_loop_Cons simp del: detect_loop.simps)
  next
    case (Some rule)
    then show ?thesis
      using Cons.IH[of ?self1 "Suc i"]
      by (auto simp add: detect_loop_Cons rule_entry_def split_beta
            simp del: detect_loop.simps)
  qed
qed

lemma detect_loop_distinct:
  "distinct (map info_pid processes) \<Longrightarrow>
   distinct (map game_pid (fst (detect_loop self gpu i processes)))"
proof (induction processes arbitrary: self i)
  case Nil
  then show ?case by simp
next
  case (Cons process rest)
  let ?self1 = "self\<lparr>gaming_processes :=
                   List.insert (info_pid process) (gaming_processes self)\<rparr>"
  from Cons.prems have d: "distinct (map info_pid rest)"
    and fresh: "info_pid process \<notin> info_pid ` set rest"
    by simp_all
  show ?case
  proof (cases "first_matching_rule (known_games self) (gpu i) process")
    case None
    then show ?thesis
      using Cons.IH[OF d, of self "Suc i"]
      by (simp add: detect_loop_Cons del: detect_loop.simps)
  next
    case (Some rule)
    have "info_pid process \<notin> game_pid ` set (fst (detect_loop ?self1 gpu (Suc i) rest))"
      using fresh detect_loop_pids_subset[of ?self1 gpu "Suc i" rest] by blast
    then show ?thesis
      using Some Cons.IH[OF d, of ?self1 "Suc i"]
      by (simp add: detect_loop_Cons rule_entry_def split_beta
            del: detect_loop.simps)
  qed
qed

text \<open>
  C4 (as the code has it). In one pass every process is classified by the first matching
  rule in the order known-games table, indicator token, GPU load: the detected list is,
  in the order of the snapshot list, the entry of the first matching rule of each
  process that has one. So each entry belongs to a process of the list, with its pid and
  lowercased name, and carries the label of the rule that matched it: \<open>indicator\<close> for a
  token match, \<open>gpu_usage\<close> for the GPU heuristic, and no \<open>detected_by\<close> key for a
  known game. A process gives at most one entry, so pids that are distinct in the
  snapshot list are distinct in the detected list.
\<close>

theorem detect_games_cascade:
  "fst (detect_games self gpu processes) =
     List.map_filter
       (\<lambda>(j, process). map_option (rule_entry (known_games self) process)
                          (first_matching_rule (known_games self) (gpu j) process))
       (enumerate 0 processes)
   \<and> (\<forall>g \<in> set (fst (detect_games self gpu processes)).
        \<exists>j < length processes. \<exists>rule.
          first_matching_rule (known_games self) (gpu j) (processes ! j) = Some rule
        \<and> game_pid g = info_pid (processes ! j)
        \<and> process_name g = lower (info_name (processes ! j))
        \<and> detected_by g = rule_label rule)
   \<and> (distinct (map info_pid processes) \<longrightarrow>
        distinct (map game_pid (fst (detect_games self gpu processes))))"
proof (intro conjI ballI impI)
  show eq: "fst (detect_games self gpu processes) =
     List.map_filter
       (\<lambda>(j, process). map_option (rule_entry (known_games self) process)
                          (first_matching_rule (known_games self) (gpu j) process))
       (enumerate 0 processes)"
    by (simp add: detect_games_def detect_loop_map_filter)
  fix g
  assume "g \<in> set (fst (detect_games self gpu processes))"
  then obtain j process rule where
    mem: "(j, process) \<in> set (enumerate 0 processes)"
    and rule: "first_matching_rule (known_games self) (gpu j) process = Some rule"
    and g: "g = rule_entry (known_games self) process rule"
    unfolding eq by (auto simp: map_filter_def)
  from mem have j: "j < length processes" and p: "process = processes ! j"
    by (auto simp: in_set_enumerate_eq)
  show "\<exists>j < length processes. \<exists>rule.
          first_matching_rule (known_games self) (gpu j) (processes ! j) = Some rule
        \<and> game_pid g = info_pid (processes ! j)
        \<and> process_name g = lower (info_name (processes ! j))
        \<and> detected_by g = rule_label rule"
    using j rule unfolding p g by (auto simp: rule_entry_def)
next
  assume "distinct (map info_pid processes)"
  then show "distinct (map game_pid (fst (detect_games self gpu processes)))"
    by (simp add: detect_games_def detect_loop_distinct)
qed

theorem detect_games_cascade_witness:
  "distinct (map info_pid [example_snapshot 7 ''csgo.exe'',
                          example_snapshot 8 ''MyUnityGame.exe'',
                          example_snapshot 9 ''notepad.exe''])
   \<and> distinct (map game_pid (fst (detect_games (GameDetector_init []) busy_gpu
        [example_snapshot 7 ''csgo.exe'', example_snapshot 8 ''MyUnityGame.exe'',
         example_snapshot 9 ''notepad.exe''])))
   \<and> map (\<lambda>g. (game_pid g, detected_by g))
        (fst (detect_games (GameDetector_init []) busy_gpu
          [example_snapshot 7 ''csgo.exe'', example_snapshot 8 ''MyUnityGame.exe'',
           example_snapshot 9 ''notepad.exe'']))
       = [(7, None), (8, Some ''indicator''), (9, Some ''gpu_usage'')]"
proof -
  have h: "distinct (map info_pid [example_snapshot 7 ''csgo.exe'',
                          example_snapshot 8 ''MyUnityGame.exe'',
                          example_snapshot 9 ''notepad.exe''])"
    by (simp add: example_snapshot_def)
  have d: "distinct (map game_pid (fst (detect_games (GameDetector_init []) busy_gpu
        [example_snapshot 7 ''csgo.exe'', example_snapshot 8 ''MyUnityGame.exe'',
         example_snapshot 9 ''notepad.exe''])))"
    using h detect_games_cascade [of "GameDetector_init []" busy_gpu
        "[example_snapshot 7 ''csgo.exe'', example_snapshot 8 ''MyUnityGame.exe'',
          example_snapshot 9 ''notepad.exe'']"]
    by blast
  have e: "map (\<lambda>g. (game_pid g, detected_by g))
        (fst (detect_games (GameDetector_init []) busy_gpu
          [example_snapshot 7 ''csgo.exe'', example_snapshot 8 ''MyUnityGame.exe'',
           example_snapshot 9 ''notepad.exe'']))
       = [(7, None), (8, Some ''indicator''), (9, Some ''gpu_usage'')]"
    by (simp add: detector_eval_defs Let_def)
  show ?thesis using h d e by blast
qed

text \<open>
  C4 as stated fails: \<open>csgo.exe\<close> is in the known-games table, and its entry has no
  \<open>detected_by\<close> key, not the label \<open>known\<close>.
\<close>

theorem detect_games_label_counterexample:
  "map_option known_name (map_of (known_games (GameDetector_init [])) (lower ''csgo.exe''))
     = Some ''Counter-Strike: Global Offensive''
   \<and> map (\<lambda>g. (game_name g, game_pid g, detected_by g))
        (fst (detect_games (GameDetector_init []) no_gpu [example_snapshot 7 ''csgo.exe'']))
       = [(''Counter-Strike: Global Offensive'', 7, None)]"
  by (simp add: detector_eval_defs Let_def)


lemmas game_mode_eval_defs =
  run_calls_def enable_game_mode_def disable_game_mode_def store_original_settings_def
  restore_original_settings_def get_power_plan_def set_power_plan_def power_plans_def
  apply_game_optimizations_def example_game_def example_active_detector_def
  example_start_def example_calls_def

lemma enable_game_mode_settings:
  "game_mode_active (fst (snd (enable_game_mode self optimizer os games))) \<Longrightarrow>
   (game_mode_active self \<longrightarrow> original_settings self \<noteq> None) \<Longrightarrow>
   original_settings (fst (snd (enable_game_mode self optimizer os games))) \<noteq> None"
  by (auto simp: enable_game_mode_def store_original_settings_def Let_def
        split: if_splits prod.splits option.splits)

lemma disable_game_mode_detector:
  "fst (disable_game_mode self optimizer os) =
     (if game_mode_active self
      then self\<lparr>gaming_processes := [], game_mode_active := False\<rparr>
      else self)"
  by (simp add: disable_game_mode_def split: prod.splits)

lemma run_call_invariant:
  assumes "game_mode_active (fst state) \<longrightarrow> original_settings (fst state) \<noteq> None"
  shows "game_mode_active (fst (run_call c state)) \<longrightarrow>
         original_settings (fst (run_call c state)) \<noteq> None"
proof -
  obtain self optimizer os where state: "state = (self, optimizer, os)"
    by (cases state) auto
  show ?thesis
  proof (cases c)
    case (CallDetect processes gpu)
    obtain detected self' where run: "detect_loop self gpu 0 processes = (detected, self')"
      by fastforce
    from detect_loop_frame[OF run] assms show ?thesis
      by (simp add: state CallDetect detect_games_def run)
  next
    case (CallEnable games)
    then show ?thesis
      using assms enable_game_mode_settings[of self optimizer os games]
      by (auto simp: state)
  next
    case CallDisable
    then show ?thesis
      by (simp add: state disable_game_mode_detector)
  next
    case (OsChanges os')
    then show ?thesis
      using assms by (simp add: state)
  qed
qed

lemma run_calls_invariant:
  "(game_mode_active (fst state) \<longrightarrow> original_settings (fst state) \<noteq> None) \<Longrightarrow>
   game_mode_active (fst (run_calls calls state)) \<longrightarrow>
     original_settings (fst (run_calls calls state)) \<noteq> None"
  unfolding run_calls_def
proof (induction calls arbitrary: state)
  case Nil
  then show ?case by simp
next
  case (Cons c calls)
  from Cons.IH[OF run_call_invariant[OF Cons.prems, of c]]
  show ?case by simp
qed

text \<open>
  C2 (as the code has it). \<open>disable_game_mode\<close> on an active session clears the
  active flag and the tracked pid set and leaves the stored settings as they are; no
  step of it can raise. After any sequence of calls on a fresh detector, an active
  session has stored settings.
\<close>

theorem disable_game_mode_amended:
  "(game_mode_active self \<longrightarrow>
      \<not> game_mode_active (fst (disable_game_mode self optimizer os))
    \<and> gaming_processes (fst (disable_game_mode self optimizer os)) = []
    \<and> original_settings (fst (disable_game_mode self optimizer os)) = original_settings self)
   \<and> (game_mode_active
         (fst (run_calls calls (GameDetector_init custom_games, optimizer0, os0))) \<longrightarrow>
       original_settings
         (fst (run_calls calls (GameDetector_init custom_games, optimizer0, os0))) \<noteq> None)"
proof (intro conjI)
  show "game_mode_active self \<longrightarrow>
      \<not> game_mode_active (fst (disable_game_mode self optimizer os))
    \<and> gaming_processes (fst (disable_game_mode self optimizer os)) = []
    \<and> original_settings (fst (disable_game_mode self optimizer os)) = original_settings self"
    by (simp add: disable_game_mode_detector)
  have "game_mode_active (fst (GameDetector_init custom_games, optimizer0, os0)) \<longrightarrow>
        original_settings (fst (GameDetector_init custom_games, optimizer0, os0)) \<noteq> None"
    by (simp add: GameDetector_init_def)
  from run_calls_invariant[OF this]
  show "game_mode_active
         (fst (run_calls calls (GameDetector_init custom_games, optimizer0, os0))) \<longrightarrow>
       original_settings
         (fst (run_calls calls (GameDetector_init custom_games, optimizer0, os0))) \<noteq> None" .
qed

theorem disable_game_mode_amended_witness:
  "game_mode_active example_active_detector
   \<and> \<not> game_mode_active (fst (disable_game_mode example_active_detector example_optimizer example_os))
   \<and> gaming_processes (fst (disable_game_mode example_active_detector example_optimizer example_os)) = []
   \<and> original_settings (fst (disable_game_mode example_active_detector example_optimizer example_os))
       = original_settings example_active_detector
   \<and> game_mode_active (fst (run_calls example_calls example_start))
   \<and> original_settings (fst (run_calls example_calls example_start)) \<noteq> None"
proof -
  have h1: "game_mode_active example_active_detector"
    by (simp add: example_active_detector_def)
  have h2: "game_mode_active (fst (run_calls example_calls example_start))"
    by (simp add: game_mode_eval_defs detector_eval_defs Let_def split_beta)
  show ?thesis
    using h1 h2
      disable_game_mode_amended [where self = example_active_detector
        and optimizer = example_optimizer and os = example_os and calls = example_calls
        and custom_games = "[]" and ?optimizer0.0 = "SystemOptimizer_init Linux []"
        and ?os0.0 = example_os_before]
    by (simp add: example_start_def)
qed

text \<open>
  The example detector in game mode is what detection and enabling lead to.
\<close>

lemma example_active_detector_reachable:
  "fst (detect_games (GameDetector_init []) no_gpu [example_snapshot 100 ''csgo.exe''])
     = [example_game]
   \<and> fst (run_calls example_calls example_start) = example_active_detector"
  by (simp add: game_mode_eval_defs detector_eval_defs example_os_before_def Let_def
        split_beta)

text \<open>
  C2 as stated fails: a new detector has no stored settings; after detecting pid 100,
  enabling game mode for it and disabling game mode again, the session is inactive and
  the settings stored by the enabling call are still there.
\<close>

theorem disable_game_mode_counterexample:
  "original_settings (fst example_start) = None
   \<and> game_mode_active (fst (run_calls example_calls example_start))
   \<and> \<not> game_mode_active (fst (run_calls (example_calls @ [CallDisable]) example_start))
   \<and> original_settings (fst (run_calls (example_calls @ [CallDisable]) example_start))
       = Some \<lparr>power_plan = ''balanced'', gpu_settings = [], network_settings = []\<rparr>"
  by (simp add: game_mode_eval_defs detector_eval_defs disable_game_mode_detector Let_def
        example_os_before_def split_beta)

section \<open>Properties of the process monitor\<close>

lemma collect_processes_kept:
  "collect_processes time_now n table = Inr kept \<Longrightarrow>
   kept = map (snapshot_of time_now) (take (max_processes - n) (filter readable table))"
proof (induction table arbitrary: n kept)
  case Nil
  then show ?case by simp
next
  case (Cons proc rest)
  show ?case
  proof (cases "n \<ge> max_processes")
    case True
    with Cons.prems show ?thesis by simp
  next
    case False
    note small = this
    show ?thesis
    proof (cases "negligible proc")
      case True
      with small Cons.prems have "collect_processes time_now n rest = Inr kept"
        by (simp add: negligible_def)
      from Cons.IH[OF this] True show ?thesis
        by (simp add: readable_def)
    next
      case False
      note busy = this
      show ?thesis
      proof (cases "it_memory_info proc")
        case (Inl e)
        with small busy Cons.prems have "collect_processes time_now n rest = Inr kept"
          by (simp add: negligible_def split: if_splits)
        from Cons.IH[OF this] Inl show ?thesis
          by (simp add: readable_def)
      next
        case (Inr rss)
        with small busy Cons.prems obtain kept' where
          rec: "collect_processes time_now (n + 1) rest = Inr kept'"
          and kept: "kept = make_pinfo time_now proc rss # kept'"
          by (auto simp: negligible_def split: sum.splits)
        have r: "readable proc" using busy Inr by (simp add: readable_def)
        have t: "max_processes - n = Suc (max_processes - (n + 1))"
          using small by simp
        from Cons.IH[OF rec] show ?thesis
          unfolding kept by (simp add: r t snapshot_of_def Inr del: One_nat_def)
      qed
    qed
  qed
qed

lemma collect_processes_returns:
  "\<forall>proc \<in> set table. caught_by_poll proc \<Longrightarrow>
   \<exists>kept. collect_processes time_now n table = Inr kept"
proof (induction table arbitrary: n)
  case Nil
  then show ?case by simp
next
  case (Cons proc rest)
  then have IH: "\<And>n. \<exists>kept. collect_processes time_now n rest = Inr kept"
    and c: "caught_by_poll proc"
    by simp_all
  from IH[of n] IH[of "n + 1"] c show ?case
    by (auto simp: caught_by_poll_def split: sum.splits)
qed

lemma sorted_reverse_descending:
  "sorted_wrt (\<lambda>a b. f a \<ge> f b) (sorted_reverse f (xs :: 'a list))"
  for f :: "'a \<Rightarrow> real"
proof -
  have "sorted (map (\<lambda>x. - f x) (sort_key (\<lambda>x. - f x) xs))"
    by (rule sorted_sort_key)
  then show ?thesis
    by (simp add: sorted_reverse_def sorted_map)
qed

text \<open>
  C9 (as the code has it). A poll that returns gives at most 30 snapshots, in descending
  order of CPU use, none of a negligible process: they are the top 30 by CPU (ties in
  the order of iteration) among the first 50 processes of the iteration that are not
  negligible and whose memory can be read. A poll returns whenever every exception of
  \<open>memory_info()\<close> is one of the three it catches.
\<close>

theorem get_processes_amended:
  "(get_processes time_now table = Inr result \<longrightarrow>
      length result \<le> 30
    \<and> sorted_wrt (\<lambda>a b. info_cpu_percent a \<ge> info_cpu_percent b) result
    \<and> (\<forall>p \<in> set result. \<not> (info_cpu_percent p = 0 \<and> info_memory_percent p < 0.1))
    \<and> result = take 30 (sorted_reverse info_cpu_percent
                 (map (snapshot_of time_now) (take 50 (filter readable table)))))
   \<and> ((\<forall>proc \<in> set table. caught_by_poll proc) \<longrightarrow>
        (\<exists>result. get_processes time_now table = Inr result))"
proof (intro conjI impI)
  assume run: "get_processes time_now table = Inr result"
  then obtain kept where k: "collect_processes time_now 0 table = Inr kept"
    and res: "result = take 30 (sorted_reverse info_cpu_percent kept)"
    by (auto simp: get_processes_def split: sum.splits)
  from collect_processes_kept[OF k]
  have kept: "kept = map (snapshot_of time_now) (take 50 (filter readable table))"
    by (simp add: max_processes_def)
  show "length result \<le> 30" by (simp add: res)
  show "sorted_wrt (\<lambda>a b. info_cpu_percent a \<ge> info_cpu_percent b) result"
    unfolding res by (rule sorted_wrt_take) (rule sorted_reverse_descending)
  show "\<forall>p \<in> set result. \<not> (info_cpu_percent p = 0 \<and> info_memory_percent p < 0.1)"
  proof
    fix p assume "p \<in> set result"
    then have "p \<in> set kept"
      unfolding res sorted_reverse_def by (auto dest: in_set_takeD)
    then obtain proc where "proc \<in> set (take 50 (filter readable table))"
      and p: "p = snapshot_of time_now proc"
      unfolding kept by auto
    then have "readable proc"
      by (auto dest: in_set_takeD)
    with p have "readable proc" and "p = snapshot_of time_now proc"
      by simp_all
    then show "\<not> (info_cpu_percent p = 0 \<and> info_memory_percent p < 0.1)"
      by (simp add: readable_def negligible_def snapshot_of_def make_pinfo_def)
  qed
  show "result = take 30 (sorted_reverse info_cpu_percent
                 (map (snapshot_of time_now) (take 50 (filter readable table))))"
    using res kept by simp
next
  assume "\<forall>proc \<in> set table. caught_by_poll proc"
  from collect_processes_returns[OF this, of time_now 0]
  show "\<exists>result. get_processes time_now table = Inr result"
    by (auto simp: get_processes_def)
qed

lemma example_iter_process_readable: "readable (example_iter_process p cpu)"
  by (simp add: readable_def negligible_def example_iter_process_def)

lemma example_table_kept:
  "take 50 (filter readable example_table)
     = map (\<lambda>i. example_iter_process (int i) 1) [0..<50]"
proof -
  have "filter readable example_table = example_table"
    by (rule filter_True) (auto simp: example_table_def example_iter_process_readable)
  then show ?thesis
    by (simp add: example_table_def del: upt_rec_numeral)
qed

lemma example_table_sorted:
  "sorted_reverse info_cpu_percent
     (map (snapshot_of 1000) (map (\<lambda>i. example_iter_process (int i) 1) [0..<50]))
   = map (snapshot_of 1000) (map (\<lambda>i. example_iter_process (int i) 1) [0..<50])"
  unfolding sorted_reverse_def
  by (rule sort_key_id_if_sorted)
    (simp add: sorted_map snapshot_of_def make_pinfo_def example_iter_process_def
       del: upt_rec_numeral)

lemma example_table_eval:
  "get_processes 1000 example_table =
     Inr (map (\<lambda>i. snapshot_of 1000 (example_iter_process (int i) 1)) [0..<30])"
proof -
  have "\<forall>proc \<in> set example_table. caught_by_poll proc"
    by (auto simp: example_table_def caught_by_poll_def example_iter_process_def)
  from collect_processes_returns[OF this, of 1000 0]
  obtain kept where k: "collect_processes 1000 0 example_table = Inr kept"
    by blast
  from collect_processes_kept[OF k]
  have kept: "kept = map (snapshot_of 1000) (map (\<lambda>i. example_iter_process (int i) 1) [0..<50])"
    by (simp add: max_processes_def example_table_kept del: upt_rec_numeral)
  have "take 30 (sorted_reverse info_cpu_percent kept)
          = map (\<lambda>i. snapshot_of 1000 (example_iter_process (int i) 1)) [0..<30]"
    unfolding kept example_table_sorted
    by (simp add: take_map del: upt_rec_numeral)
  then show ?thesis
    by (simp add: get_processes_def k)
qed

text \<open>
  C9 as stated fails: of 51 readable processes, the last one has by far the highest CPU
  use (99 percent against 1 percent) and is not among the 30 snapshots returned, because
  the iteration stops after 50 kept processes.
\<close>

theorem get_processes_top_counterexample:
  "length example_table = 51
   \<and> (it_pid (last example_table), it_cpu_percent (last example_table)) = (50, 99)
   \<and> map_sum id (map (\<lambda>p. (info_pid p, info_cpu_percent p)))
        (get_processes 1000 example_table)
       = Inr (map (\<lambda>i. (int i, 1)) [0..<30])"
  by (simp add: example_table_eval snapshot_of_def make_pinfo_def comp_def
        del: upt_rec_numeral)
    (simp add: example_table_def example_iter_process_def)


theorem get_processes_amended_witness:
  "get_processes 1000 example_table
     = Inr (map (\<lambda>i. snapshot_of 1000 (example_iter_process (int i) 1)) [0..<30])
   \<and> list_all caught_by_poll example_table
   \<and> length (map (\<lambda>i. snapshot_of 1000 (example_iter_process (int i) 1)) [0..<30]) \<le> 30
   \<and> sorted_wrt (\<lambda>a b. info_cpu_percent a \<ge> info_cpu_percent b)
        (map (\<lambda>i. snapshot_of 1000 (example_iter_process (int i) 1)) [0..<30])
   \<and> map (\<lambda>i. snapshot_of 1000 (example_iter_process (int i) 1)) [0..<30]
       = take 30 (sorted_reverse info_cpu_percent
           (map (snapshot_of 1000) (take 50 (filter readable example_table))))
   \<and> (\<exists>result. get_processes 1000 example_table = Inr result)"
proof -
  have h1: "get_processes 1000 example_table
     = Inr (map (\<lambda>i. snapshot_of 1000 (example_iter_process (int i) 1)) [0..<30])"
    by (rule example_table_eval)
  have h2: "\<forall>proc \<in> set example_table. caught_by_poll proc"
    by (auto simp: example_table_def caught_by_poll_def example_iter_process_def)
  have h2': "list_all caught_by_poll example_table"
    using h2 by (simp add: list_all_iff)
  show ?thesis
    using h1 h2 h2'
      get_processes_amended [of 1000 example_table
        "map (\<lambda>i. snapshot_of 1000 (example_iter_process (int i) 1)) [0..<30]"]
    by blast
qed

lemma notify_callbacks_append:
  "notify_callbacks (xs @ ys) processes w =
     (case notify_callbacks xs processes w of
        (Some e, w') \<Rightarrow> (Some e, w')
      | (None, w') \<Rightarrow> notify_callbacks ys processes w')"
  by (induction xs arbitrary: w) (auto split: prod.splits option.splits)

text \<open>
  C6 (as the code has it). In a publish cycle whose poll succeeds, when the subscribers
  registered before some subscriber return and that subscriber raises, the cycle ends
  there: the rest of the program is as that subscriber left it (the subscribers
  registered after it are not called in this cycle), the error is logged once, the
  subscribers stay registered, and the loop goes on with the next poll.
\<close>

theorem monitor_cycle_failing_subscriber:
  assumes "get_processes (fst poll) (snd poll) = Inr processes"
    and "callbacks self = before @ failing # rest"
    and "notify_callbacks before processes w = (None, w1)"
    and "failing processes w1 = (Some e, w2)"
  shows "snd (monitor_cycle self poll w) = w2
       \<and> error_log (fst (monitor_cycle self poll w))
           = error_log self @ [''Error in monitor loop: '' @ exception_str e]
       \<and> callbacks (fst (monitor_cycle self poll w)) = callbacks self
       \<and> monitor_loop self (poll # polls) w
           = monitor_loop (fst (monitor_cycle self poll w)) polls w2"
proof -
  have n: "notify_callbacks (callbacks self) processes w = (Some e, w2)"
    using assms(2,3,4) by (simp add: notify_callbacks_append)
  have c: "monitor_cycle self poll w =
      (self\<lparr>process_cache := fold (\<lambda>p. AList.update (info_pid p) p) processes [],
            error_log := error_log self @ [''Error in monitor loop: '' @ exception_str e]\<rparr>,
       w2)"
    using assms(1) n by (simp add: monitor_cycle_def Let_def)
  show ?thesis
    by (simp add: c)
qed

lemmas monitor_eval_defs =
  monitor_cycle_def get_processes_def example_monitor_def example_poll_def
  example_iter_process_def recording_subscriber_def raising_subscriber_def
  make_pinfo_def sorted_reverse_def max_processes_def

theorem monitor_cycle_failing_subscriber_witness:
  "get_processes (fst example_poll) (snd example_poll)
     = Inr [snapshot_of 1000 (example_iter_process 7 5)]
   \<and> callbacks example_monitor
       = [recording_subscriber 1] @ raising_subscriber 2 # [recording_subscriber 3]
   \<and> notify_callbacks [recording_subscriber 1]
        [snapshot_of 1000 (example_iter_process 7 5)] [] = (None, [(1, [7])])
   \<and> raising_subscriber 2 [snapshot_of 1000 (example_iter_process 7 5)] [(1, [7])]
       = (Some (OtherException ''subscriber failed''), [(1, [7]), (2, [7])])
   \<and> snd (monitor_cycle example_monitor example_poll []) = [(1, [7]), (2, [7])]
   \<and> error_log (fst (monitor_cycle example_monitor example_poll []))
       = error_log example_monitor
         @ [''Error in monitor loop: '' @ exception_str (OtherException ''subscriber failed'')]
   \<and> monitor_loop example_monitor [example_poll, example_poll] []
       = monitor_loop (fst (monitor_cycle example_monitor example_poll [])) [example_poll]
           [(1, [7]), (2, [7])]"
proof -
  have h1: "get_processes (fst example_poll) (snd example_poll)
     = Inr [snapshot_of 1000 (example_iter_process 7 5)]"
    by (simp add: monitor_eval_defs snapshot_of_def)
  have h2: "callbacks example_monitor
       = [recording_subscriber 1] @ raising_subscriber 2 # [recording_subscriber 3]"
    by (simp add: example_monitor_def)
  have h3: "notify_callbacks [recording_subscriber 1]
        [snapshot_of 1000 (example_iter_process 7 5)] [] = (None, [(1, [7])])"
    by (simp add: monitor_eval_defs snapshot_of_def)
  have h4: "raising_subscriber 2 [snapshot_of 1000 (example_iter_process 7 5)] [(1, [7])]
       = (Some (OtherException ''subscriber failed''), [(1, [7]), (2, [7])])"
    by (simp add: monitor_eval_defs snapshot_of_def)
  show ?thesis
    using h1 h2 h3 h4
      monitor_cycle_failing_subscriber [OF h1 h2 h3 h4, of "[example_poll]"]
    by simp
qed

text \<open>
  C6 as stated fails: of three subscribers the second raises; the third never receives
  the snapshot list, in the first cycle or in the next one, while the loop does go on
  and the error is logged.
\<close>

theorem monitor_cycle_isolation_counterexample:
  "callbacks example_monitor
     = [recording_subscriber 1, raising_subscriber 2, recording_subscriber 3]
   \<and> snd (monitor_cycle example_monitor example_poll []) = [(1, [7]), (2, [7])]
   \<and> error_log (fst (monitor_cycle example_monitor example_poll []))
       = [''Error in monitor loop: subscriber failed'']
   \<and> snd (monitor_loop example_monitor [example_poll, example_poll] [])
       = [(1, [7]), (2, [7]), (1, [7]), (2, [7])]"
  by (simp add: monitor_eval_defs Let_def)


section \<open>Properties of the scheduler\<close>

lemmas scheduler_eval_defs =
  add_schedule_def create_job_def run_schedule_def attach_job_def save_schedules_def
  OptimizationScheduler_init_def recording_executor_def example_action_def
  example_library_def

text \<open>
  A startup schedule added enabled under a fresh id leaves the rest of the program as
  it was, whatever the actions do: \<open>_run_schedule\<close> is called while the id is not yet a
  key of \<open>self.schedules\<close> and returns at once.
\<close>

lemma add_schedule_startup_fresh_id:
  assumes "map_of (schedules self) new_id = None"
  shows "snd (snd (add_schedule lib execute_action time_now new_id name_arg ''startup''
                     time_str days interval actions True (self, w))) = w"
  using assms
  by (simp add: add_schedule_def create_job_def run_schedule_def attach_job_def Let_def)

text \<open>
  C7 on the code. A schedule of type \<open>startup\<close> with one action, added enabled to a
  fresh scheduler: the id is returned and the schedule is stored with no job and no
  \<open>next_run\<close>, and no job is registered with the library (it never recurs); but no
  action has been executed and \<open>last_run\<close> is unset, where the claim has the action
  list executed exactly once.
\<close>

theorem add_schedule_startup_executes_nothing:
  "(case add_schedule example_library recording_executor 10 ''id-1'' ''Boot'' ''startup''
           None None None (Some [example_action]) True (OptimizationScheduler_init, []) of
      (returned, self', executed) \<Rightarrow>
        returned = Inr ''id-1''
      \<and> executed = []
      \<and> map (\<lambda>(sid, info). (sid, schedule_type info, schedule_actions info,
                             schedule_enabled info, last_run info, next_run info,
                             schedule_job info)) (schedules self')
          = [(''id-1'', ''startup'', [example_action], True, None, None, None)]
      \<and> library_jobs self' = [])"
  by (simp add: scheduler_eval_defs Let_def)


end
